theory Spec2Isabelle
  imports Main "HOL-Library.Word"
begin

section \<open>The UDP channel transport of the Aeron media driver\<close>

text \<open>
  A shallow embedding of \<^verbatim>\<open>aeron_udp_channel_transport.c\<close>. The operating system and
  the helpers of other translation units are not part of the file: every call into them
  is answered by a parameter of the model (the value the call returns), and the calls a
  function issues are appended to a log, so that what the code asks of the operating
  system can be stated. Preprocessor conditionals are fields of a \<open>platform\<close> record.
\<close>

subsection \<open>Platform, build configuration and constants of headers\<close>

record platform =
  defined_HAVE_RECVMMSG :: bool
  defined_HAVE_SENDMMSG :: bool
  defined_SO_REUSEADDR :: bool
  defined_SO_REUSEPORT :: bool
  defined_HAS_MEDIA_RCV_TIMESTAMPS :: bool
  AERON_UDP_CHANNEL_TRANSPORT_MAX_INTERCEPTORS :: nat
  AERON_DRIVER_RECEIVER_NUM_RECV_BUFFERS :: nat
  AF_INET6 :: int
  SOL_SOCKET :: int
  SCM_TIMESTAMPNS :: int
  CMSG_LEN_timespec :: nat \<comment> \<open>\<^verbatim>\<open>CMSG_LEN(sizeof(struct timespec))\<close>\<close>
  CMSG_LEN_buf :: nat \<comment> \<open>\<^verbatim>\<open>CMSG_LEN(sizeof(buf[i]))\<close>\<close>

text \<open>Opaque references (\<^verbatim>\<open>void *\<close> and the like): only their identity matters.\<close>

datatype ptr = NULL | Ptr nat

text \<open>
  Modelled from the spec: the two values of the timestamp capability flag, whose
  definitions are in a header that is not among the sources. The spec has the flag as
  "none | media-receive" and "a single non-zero capability flag"; the receive path tests
  the flag for being non-zero.
\<close>

definition AERON_UDP_CHANNEL_TRANSPORT_MEDIA_RCV_TIMESTAMP_NONE :: "32 word" where
  "AERON_UDP_CHANNEL_TRANSPORT_MEDIA_RCV_TIMESTAMP_NONE = 0"

definition AERON_UDP_CHANNEL_TRANSPORT_MEDIA_RCV_TIMESTAMP :: "32 word" where
  "AERON_UDP_CHANNEL_TRANSPORT_MEDIA_RCV_TIMESTAMP = 1"

subsection \<open>The transport handle\<close>

text \<open>
  The fields of \<^verbatim>\<open>aeron_udp_channel_transport_t\<close> that the file reads or writes. The
  interceptor array is a map from index to reference; its extent is
  \<open>AERON_UDP_CHANNEL_TRANSPORT_MAX_INTERCEPTORS\<close>.
\<close>

record aeron_udp_channel_transport =
  fd :: int
  data_paths :: ptr
  dispatch_clientd :: ptr
  bindings_clientd :: ptr
  destination_clientd :: ptr
  interceptor_clientds :: "nat \<Rightarrow> ptr"
  timestamp_flags :: "32 word"

subsection \<open>The operating system as seen by the transport\<close>

datatype sockopt =
    SO_REUSEADDR | SO_REUSEPORT
  | IPV6_JOIN_GROUP | IPV6_MULTICAST_IF | IPV6_MULTICAST_HOPS
  | IP_ADD_MEMBERSHIP | IP_MULTICAST_IF | IP_MULTICAST_TTL
  | SO_RCVBUF | SO_SNDBUF | SO_TIMESTAMPNS | SO_TIMESTAMPING

datatype bind_target = Bind_addr | Bind_in6addr_any | Bind_INADDR_ANY

datatype syscall =
    Sys_socket int
  | Sys_bind int bind_target
  | Sys_setsockopt int sockopt
  | Sys_set_non_blocking int
  | Sys_close_socket int

text \<open>
  The descriptors that name an open socket, and the calls issued so far (oldest first).
\<close>

record os_state =
  open_fds :: "int set"
  calls :: "syscall list"

definition os_log :: "syscall \<Rightarrow> os_state \<Rightarrow> os_state" where
  "os_log c os = os\<lparr>calls := calls os @ [c]\<rparr>"

text \<open>\<^verbatim>\<open>aeron_close_socket(fd)\<close>: the descriptor no longer names an open socket.\<close>

definition aeron_close_socket :: "int \<Rightarrow> os_state \<Rightarrow> os_state" where
  "aeron_close_socket d os = os_log (Sys_close_socket d) (os\<lparr>open_fds := open_fds os - {d}\<rparr>)"

subsection \<open>Closing a handle\<close>

text \<open>
  \<^verbatim>\<open>aeron_udp_channel_transport_close\<close>: the result is the returned \<^verbatim>\<open>int\<close>, the handle
  as the call leaves it, and the operating system's state.
\<close>

definition aeron_udp_channel_transport_close ::
  "aeron_udp_channel_transport \<Rightarrow> os_state \<Rightarrow> int \<times> aeron_udp_channel_transport \<times> os_state" where
  "aeron_udp_channel_transport_close transport os =
     (let os' = (if fd transport \<noteq> - 1 then aeron_close_socket (fd transport) os else os)
      in (0, transport, os'))"

subsection \<open>The interceptor slot table\<close>

text \<open>
  The loop at the head of \<^verbatim>\<open>aeron_udp_channel_transport_init\<close>:
  \<^verbatim>\<open>for (size_t i = 0; i < AERON_UDP_CHANNEL_TRANSPORT_MAX_INTERCEPTORS; i++)
    transport->interceptor_clientds[i] = NULL;\<close>
\<close>

function clear_interceptor_clientds :: "nat \<Rightarrow> nat \<Rightarrow> (nat \<Rightarrow> ptr) \<Rightarrow> (nat \<Rightarrow> ptr)" where
  "clear_interceptor_clientds i n cs =
     (if i < n then clear_interceptor_clientds (Suc i) n (cs(i := NULL)) else cs)"
  by pat_completeness auto
termination
  by (relation "measure (\<lambda>(i, n, cs). n - i)") auto

declare clear_interceptor_clientds.simps [simp del]

text \<open>
  Modelled from the spec: the two slot accessors
  \<^verbatim>\<open>aeron_udp_channel_transport_get_interceptor_clientd\<close> and
  \<^verbatim>\<open>aeron_udp_channel_transport_set_interceptor_clientd\<close>. The source file only
  declares them \<^verbatim>\<open>extern\<close>; their bodies are in a header that is not among the
  sources. The spec: "fixed-capacity indexed storage of opaque references, one per
  registered interceptor; get/set by index are O(1), allocation-free, and the only two
  operations. Out-of-range indices are a caller programming error, not a recoverable
  runtime condition." An out-of-range index has no result (\<open>None\<close>).
\<close>

definition aeron_udp_channel_transport_get_interceptor_clientd ::
  "platform \<Rightarrow> aeron_udp_channel_transport \<Rightarrow> int \<Rightarrow> ptr option" where
  "aeron_udp_channel_transport_get_interceptor_clientd p transport interceptor_index =
     (if 0 \<le> interceptor_index
         \<and> nat interceptor_index < AERON_UDP_CHANNEL_TRANSPORT_MAX_INTERCEPTORS p
      then Some (interceptor_clientds transport (nat interceptor_index))
      else None)"

definition aeron_udp_channel_transport_set_interceptor_clientd ::
  "platform \<Rightarrow> aeron_udp_channel_transport \<Rightarrow> int \<Rightarrow> ptr
     \<Rightarrow> aeron_udp_channel_transport option" where
  "aeron_udp_channel_transport_set_interceptor_clientd p transport interceptor_index clientd =
     (if 0 \<le> interceptor_index
         \<and> nat interceptor_index < AERON_UDP_CHANNEL_TRANSPORT_MAX_INTERCEPTORS p
      then Some (transport\<lparr>interceptor_clientds :=
                   (interceptor_clientds transport)(nat interceptor_index := clientd)\<rparr>)
      else None)"

subsection \<open>Initialisation\<close>

text \<open>
  What the operating system answers during one run of
  \<^verbatim>\<open>aeron_udp_channel_transport_init\<close>: the value of \<^verbatim>\<open>aeron_socket\<close>, of
  \<^verbatim>\<open>bind\<close>, of \<^verbatim>\<open>aeron_setsockopt\<close> for each option, and of
  \<^verbatim>\<open>aeron_set_socket_non_blocking\<close>.
\<close>

record init_os =
  socket_result :: int
  bind_result :: int
  setsockopt_result :: "sockopt \<Rightarrow> int"
  set_non_blocking_result :: int

text \<open>
  The arguments that decide the control flow. \<open>addr_is_multicast\<close> is the value of
  \<^verbatim>\<open>aeron_is_addr_multicast(bind_addr)\<close>. The interface address and index, the
  driver context and the affinity only travel into the arguments of system calls and are
  left out.
\<close>

record init_args =
  ss_family :: int
  addr_is_multicast :: bool
  ttl :: "8 word"
  socket_rcvbuf :: nat
  socket_sndbuf :: nat
  is_media_timestamping :: bool

text \<open>
  A step of the initialisation either goes on (\<open>Inr\<close>) or jumps to the \<^verbatim>\<open>error:\<close>
  label (\<open>Inl\<close>) with the call that failed; both carry the handle and the operating
  system's state as they are at that point.
\<close>

type_synonym init_state = "aeron_udp_channel_transport \<times> os_state"
type_synonym init_step = "init_state \<Rightarrow> (syscall \<times> init_state) + init_state"

definition step_socket :: "init_os \<Rightarrow> init_args \<Rightarrow> init_step" where
  "step_socket e a s =
     (case s of (transport, os) \<Rightarrow>
        let r = socket_result e;
            os' = os_log (Sys_socket (ss_family a))
                    (os\<lparr>open_fds := (if 0 \<le> r then insert r (open_fds os) else open_fds os)\<rparr>);
            transport' = transport\<lparr>fd := r\<rparr>
        in if r < 0 then Inl (Sys_socket (ss_family a), transport', os')
           else Inr (transport', os'))"

definition step_bind :: "init_os \<Rightarrow> bind_target \<Rightarrow> init_step" where
  "step_bind e target s =
     (case s of (transport, os) \<Rightarrow>
        let c = Sys_bind (fd transport) target; os' = os_log c os
        in if bind_result e < 0 then Inl (c, transport, os') else Inr (transport, os'))"

definition step_setsockopt :: "init_os \<Rightarrow> sockopt \<Rightarrow> init_step" where
  "step_setsockopt e opt s =
     (case s of (transport, os) \<Rightarrow>
        let c = Sys_setsockopt (fd transport) opt; os' = os_log c os
        in if setsockopt_result e opt < 0 then Inl (c, transport, os')
           else Inr (transport, os'))"

text \<open>\<^verbatim>\<open>aeron_udp_channel_transport_setup_media_rcv_timestamps\<close>, called from init.\<close>

definition aeron_udp_channel_transport_setup_media_rcv_timestamps ::
  "platform \<Rightarrow> init_os \<Rightarrow> init_step" where
  "aeron_udp_channel_transport_setup_media_rcv_timestamps p e s =
     (if defined_HAS_MEDIA_RCV_TIMESTAMPS p then
        (case step_setsockopt e SO_TIMESTAMPNS s of
           Inl err \<Rightarrow> Inl err
         | Inr s1 \<Rightarrow>
             (case step_setsockopt e SO_TIMESTAMPING s1 of
                Inl err \<Rightarrow> Inl err
              | Inr (transport, os) \<Rightarrow>
                  Inr (transport\<lparr>timestamp_flags :=
                         AERON_UDP_CHANNEL_TRANSPORT_MEDIA_RCV_TIMESTAMP\<rparr>, os)))
      else Inr s)"

definition step_set_non_blocking :: "init_os \<Rightarrow> init_step" where
  "step_set_non_blocking e s =
     (case s of (transport, os) \<Rightarrow>
        let c = Sys_set_non_blocking (fd transport); os' = os_log c os
        in if set_non_blocking_result e < 0 then Inl (c, transport, os')
           else Inr (transport, os'))"

text \<open>Steps run in order; the first that fails ends the run (\<^verbatim>\<open>goto error\<close>).\<close>

fun run_steps :: "init_step list \<Rightarrow> init_state \<Rightarrow> (syscall \<times> init_state) + init_state" where
  "run_steps [] s = Inr s"
| "run_steps (f # fs) s = (case f s of Inl err \<Rightarrow> Inl err | Inr s' \<Rightarrow> run_steps fs s')"

text \<open>The multicast branch of init, after the socket exists.\<close>

definition multicast_steps :: "platform \<Rightarrow> init_os \<Rightarrow> init_args \<Rightarrow> init_step list" where
  "multicast_steps p e a =
     (if defined_SO_REUSEADDR p then [step_setsockopt e SO_REUSEADDR] else []) @
     (if defined_SO_REUSEPORT p then [step_setsockopt e SO_REUSEPORT] else []) @
     (if AF_INET6 p = ss_family a then
        [step_bind e Bind_in6addr_any,
         step_setsockopt e IPV6_JOIN_GROUP,
         step_setsockopt e IPV6_MULTICAST_IF] @
        (if 0 < ttl a then [step_setsockopt e IPV6_MULTICAST_HOPS] else [])
      else
        [step_bind e Bind_INADDR_ANY,
         step_setsockopt e IP_ADD_MEMBERSHIP,
         step_setsockopt e IP_MULTICAST_IF] @
        (if 0 < ttl a then [step_setsockopt e IP_MULTICAST_TTL] else []))"

text \<open>Everything init does between creating the socket and \<^verbatim>\<open>return 0\<close>.\<close>

definition configure_steps :: "platform \<Rightarrow> init_os \<Rightarrow> init_args \<Rightarrow> init_step list" where
  "configure_steps p e a =
     (if \<not> addr_is_multicast a then [step_bind e Bind_addr] else multicast_steps p e a) @
     (if 0 < socket_rcvbuf a then [step_setsockopt e SO_RCVBUF] else []) @
     (if 0 < socket_sndbuf a then [step_setsockopt e SO_SNDBUF] else []) @
     (if is_media_timestamping a
      then [aeron_udp_channel_transport_setup_media_rcv_timestamps p e] else []) @
     [step_set_non_blocking e]"

record init_result =
  ir_ret :: int
  ir_failed :: "syscall option"
  ir_transport :: aeron_udp_channel_transport
  ir_os :: os_state

text \<open>The assignments at the head of init, before the socket is created.\<close>

definition reset_handle ::
  "platform \<Rightarrow> aeron_udp_channel_transport \<Rightarrow> aeron_udp_channel_transport" where
  "reset_handle p transport =
     transport\<lparr>
       fd := - 1,
       bindings_clientd := NULL,
       timestamp_flags := AERON_UDP_CHANNEL_TRANSPORT_MEDIA_RCV_TIMESTAMP_NONE,
       interceptor_clientds :=
         clear_interceptor_clientds 0 (AERON_UDP_CHANNEL_TRANSPORT_MAX_INTERCEPTORS p)
           (interceptor_clientds transport)\<rparr>"

text \<open>
  \<^verbatim>\<open>aeron_udp_channel_transport_init\<close>. The \<open>Inl\<close> case is the code after the
  \<^verbatim>\<open>error:\<close> label.
\<close>

definition aeron_udp_channel_transport_init ::
  "platform \<Rightarrow> init_os \<Rightarrow> init_args \<Rightarrow> aeron_udp_channel_transport \<Rightarrow> os_state
     \<Rightarrow> init_result" where
  "aeron_udp_channel_transport_init p e a transport os =
     (case run_steps (step_socket e a # configure_steps p e a) (reset_handle p transport, os) of
        Inr (transport', os') \<Rightarrow>
          \<lparr>ir_ret = 0, ir_failed = None, ir_transport = transport', ir_os = os'\<rparr>
      | Inl (c, transport', os') \<Rightarrow>
          \<lparr>ir_ret = - 1, ir_failed = Some c,
           ir_transport = transport'\<lparr>fd := - 1\<rparr>,
           ir_os = (if - 1 \<noteq> fd transport'
                    then aeron_close_socket (fd transport') os' else os')\<rparr>)"

subsection \<open>Message vectors and the receive callback\<close>

datatype errno = EINTR | EAGAIN | Errno_other int

record timespec =
  tv_sec :: int
  tv_nsec :: int

text \<open>A control message header together with the data that follows it.\<close>

record cmsghdr =
  cmsg_level :: int
  cmsg_type :: int
  cmsg_len :: nat
  cmsg_data :: timespec

text \<open>
  Where \<^verbatim>\<open>msg_control\<close> of a slot points: nowhere, to memory of the caller, or to row \<open>i\<close>
  of the array \<^verbatim>\<open>buf\<close> on the stack of the receive function.
\<close>

datatype control_ptr = Control_null | Control_caller nat | Control_buf nat

text \<open>
  One \<^verbatim>\<open>struct mmsghdr\<close>: the payload buffer \<^verbatim>\<open>msg_hdr.msg_iov[0].iov_base\<close>, the address
  buffer \<^verbatim>\<open>msg_hdr.msg_name\<close>, the control buffer and its length, and \<^verbatim>\<open>msg_len\<close>.
  \<open>cmsg_firsthdr\<close> is what \<^verbatim>\<open>CMSG_FIRSTHDR(&msg_hdr)\<close> yields for the slot (\<open>None\<close> for a
  null pointer); the macro belongs to the system headers.
\<close>

record mmsghdr =
  iov_base :: ptr
  msg_name :: ptr
  msg_control :: control_ptr
  msg_controllen :: nat
  msg_len :: "32 word"
  cmsg_firsthdr :: "cmsghdr option"

text \<open>
  The timestamp argument of the callback: null, or \<^verbatim>\<open>CMSG_DATA\<close> of the first control
  header of slot \<open>i\<close> of the message vector.
\<close>

datatype timespec_ptr = Timestamp_null | CMSG_DATA nat

text \<open>
  One invocation of \<^verbatim>\<open>recv_func\<close>, by its arguments (the handle itself, which is passed
  too, is the one the receive function was called with).
\<close>

record recv_call =
  rc_data_paths :: ptr
  rc_clientd :: ptr
  rc_dispatch_clientd :: ptr
  rc_destination_clientd :: ptr
  rc_buffer :: ptr
  rc_length :: nat
  rc_addr :: ptr
  rc_media_rcv_timestamp :: timespec_ptr

definition recv_func_call ::
  "aeron_udp_channel_transport \<Rightarrow> ptr \<Rightarrow> mmsghdr \<Rightarrow> timespec_ptr \<Rightarrow> recv_call" where
  "recv_func_call transport clientd m ts =
     \<lparr>rc_data_paths = data_paths transport,
      rc_clientd = clientd,
      rc_dispatch_clientd = dispatch_clientd transport,
      rc_destination_clientd = destination_clientd transport,
      rc_buffer = iov_base m,
      rc_length = unat (msg_len m),
      rc_addr = msg_name m,
      rc_media_rcv_timestamp = ts\<rparr>"

text \<open>
  What a receive or send call leaves behind: the returned \<^verbatim>\<open>int\<close>, the byte counter
  \<^verbatim>\<open>*bytes_rcved\<close> (an \<^verbatim>\<open>int64_t\<close>), the callback invocations in order, the message
  vector, and the number of receive or send system calls issued. A model function returns
  \<open>None\<close> where the C code would index the message vector outside its extent.
\<close>

record io_result =
  io_ret :: int
  io_bytes :: "64 word"
  io_calls :: "recv_call list"
  io_msgvec :: "mmsghdr list"
  io_syscalls :: nat

subsection \<open>Receiving: the vectorized path\<close>

text \<open>
  The conversion \<^verbatim>\<open>(int)vlen\<close> of a \<^verbatim>\<open>size_t\<close>: the low 32 bits, read as two's
  complement.
\<close>

definition int_of_size_t :: "nat \<Rightarrow> int" where
  "int_of_size_t n = sint (word_of_nat n :: 32 word)"

text \<open>
  The loop that attaches a control buffer to each slot when timestamping is on:
  \<^verbatim>\<open>for (int i = 0; i < (int)vlen && i < AERON_DRIVER_RECEIVER_NUM_RECV_BUFFERS; i++)\<close>.
\<close>

function attach_control :: "platform \<Rightarrow> nat \<Rightarrow> nat \<Rightarrow> mmsghdr list \<Rightarrow> mmsghdr list option" where
  "attach_control p i vlen msgvec =
     (if int i < int_of_size_t vlen \<and> i < AERON_DRIVER_RECEIVER_NUM_RECV_BUFFERS p then
        (if i < length msgvec then
           attach_control p (Suc i) vlen
             (msgvec[i := (msgvec ! i)\<lparr>msg_control := Control_buf i,
                                        msg_controllen := CMSG_LEN_buf p\<rparr>])
         else None)
      else Some msgvec)"
  by pat_completeness auto
termination
  by (relation "measure (\<lambda>(p, i, vlen, msgvec). AERON_DRIVER_RECEIVER_NUM_RECV_BUFFERS p - i)")
     auto

declare attach_control.simps [simp del]

text \<open>
  The test on the first control header of a slot, and the assignment it guards:
  \<^verbatim>\<open>media_rcv_timestamp\<close> is declared before the loop and keeps its value when the test
  fails.
\<close>

definition next_media_rcv_timestamp ::
  "platform \<Rightarrow> nat \<Rightarrow> mmsghdr \<Rightarrow> timespec_ptr \<Rightarrow> timespec_ptr" where
  "next_media_rcv_timestamp p i m media_rcv_timestamp =
     (case cmsg_firsthdr m of
        None \<Rightarrow> media_rcv_timestamp
      | Some cmsg \<Rightarrow>
          if cmsg_level cmsg = SOL_SOCKET p \<and>
             cmsg_type cmsg = SCM_TIMESTAMPNS p \<and>
             cmsg_len cmsg = CMSG_LEN_timespec p
          then CMSG_DATA i else media_rcv_timestamp)"

text \<open>
  The dispatch loop \<^verbatim>\<open>for (size_t i = 0, length = (size_t)result; i < length; i++)\<close>.
\<close>

function recvmmsg_dispatch ::
  "platform \<Rightarrow> aeron_udp_channel_transport \<Rightarrow> ptr \<Rightarrow> mmsghdr list \<Rightarrow> nat \<Rightarrow> nat
     \<Rightarrow> timespec_ptr \<Rightarrow> 64 word \<Rightarrow> recv_call list \<Rightarrow> (64 word \<times> recv_call list) option" where
  "recvmmsg_dispatch p transport clientd msgvec i len media_rcv_timestamp bytes_rcved cs =
     (if i < len then
        (if i < length msgvec then
           (let m = msgvec ! i;
                ts = next_media_rcv_timestamp p i m media_rcv_timestamp
            in recvmmsg_dispatch p transport clientd msgvec (Suc i) len ts
                 (bytes_rcved + ucast (msg_len m))
                 (cs @ [recv_func_call transport clientd m ts]))
         else None)
      else Some (bytes_rcved, cs))"
  by pat_completeness auto
termination
  by (relation "measure (\<lambda>(p, transport, clientd, msgvec, i, len, r). len - i)") auto

declare recvmmsg_dispatch.simps [simp del]

text \<open>
  \<^verbatim>\<open>recvmmsg(fd, msgvec, vlen, 0, &tv)\<close> is a parameter: from the descriptor, the
  message vector and \<open>vlen\<close> to the returned value, \<^verbatim>\<open>errno\<close> and the message vector as the
  kernel leaves it.
\<close>

type_synonym recvmmsg_sys = "int \<Rightarrow> mmsghdr list \<Rightarrow> nat \<Rightarrow> int \<times> errno \<times> mmsghdr list"

text \<open>The message vector as it is handed to \<^verbatim>\<open>recvmmsg\<close>: \<^verbatim>\<open>if (transport->timestamp_flags)\<close>.\<close>

definition prepare_control ::
  "platform \<Rightarrow> aeron_udp_channel_transport \<Rightarrow> nat \<Rightarrow> mmsghdr list \<Rightarrow> mmsghdr list option" where
  "prepare_control p transport vlen msgvec =
     (if timestamp_flags transport \<noteq> 0 then attach_control p 0 vlen msgvec else Some msgvec)"

definition recvmmsg_vectorized ::
  "platform \<Rightarrow> recvmmsg_sys \<Rightarrow> aeron_udp_channel_transport \<Rightarrow> mmsghdr list \<Rightarrow> nat
     \<Rightarrow> 64 word \<Rightarrow> ptr \<Rightarrow> io_result option" where
  "recvmmsg_vectorized p sys transport msgvec vlen bytes_rcved clientd =
     (case prepare_control p transport vlen msgvec of
        None \<Rightarrow> None
      | Some mv \<Rightarrow>
          (case sys (fd transport) mv vlen of
             (result, err, mv') \<Rightarrow>
               if result < 0 then
                 (if EINTR = err \<or> EAGAIN = err
                  then Some \<lparr>io_ret = 0, io_bytes = bytes_rcved, io_calls = [],
                             io_msgvec = mv', io_syscalls = 1\<rparr>
                  else Some \<lparr>io_ret = - 1, io_bytes = bytes_rcved, io_calls = [],
                             io_msgvec = mv', io_syscalls = 1\<rparr>)
               else if 0 = result then
                 Some \<lparr>io_ret = 0, io_bytes = bytes_rcved, io_calls = [],
                       io_msgvec = mv', io_syscalls = 1\<rparr>
               else
                 (case recvmmsg_dispatch p transport clientd mv' 0 (nat result)
                         Timestamp_null bytes_rcved [] of
                    None \<Rightarrow> None
                  | Some (b, cs) \<Rightarrow>
                      Some \<lparr>io_ret = result, io_bytes = b, io_calls = cs,
                            io_msgvec = mv', io_syscalls = 1\<rparr>)))"

subsection \<open>Receiving: the scalar fallback\<close>

text \<open>
  The loop of the \<^verbatim>\<open>#else\<close> branch. \<open>rcv i\<close> is the value \<^verbatim>\<open>aeron_recvmsg\<close> returns for
  slot \<open>i\<close>. \<open>work_count\<close> is a C \<^verbatim>\<open>int\<close>; a batch is far shorter than its range.
\<close>

function recvmsg_loop ::
  "aeron_udp_channel_transport \<Rightarrow> ptr \<Rightarrow> (nat \<Rightarrow> int) \<Rightarrow> nat \<Rightarrow> nat \<Rightarrow> mmsghdr list
     \<Rightarrow> 64 word \<Rightarrow> recv_call list \<Rightarrow> int \<Rightarrow> io_result option" where
  "recvmsg_loop transport clientd rcv i len msgvec bytes_rcved cs work_count =
     (if i < len then
        (if i < length msgvec then
           (let result = rcv i in
            if result < 0 then
              Some \<lparr>io_ret = - 1, io_bytes = bytes_rcved, io_calls = cs,
                    io_msgvec = msgvec, io_syscalls = Suc i\<rparr>
            else if 0 = result then
              Some \<lparr>io_ret = work_count, io_bytes = bytes_rcved, io_calls = cs,
                    io_msgvec = msgvec, io_syscalls = Suc i\<rparr>
            else
              (let m = (msgvec ! i)\<lparr>msg_len := word_of_int result\<rparr>
               in recvmsg_loop transport clientd rcv (Suc i) len (msgvec[i := m])
                    (bytes_rcved + ucast (msg_len m))
                    (cs @ [recv_func_call transport clientd m Timestamp_null])
                    (work_count + 1)))
         else None)
      else Some \<lparr>io_ret = work_count, io_bytes = bytes_rcved, io_calls = cs,
                 io_msgvec = msgvec, io_syscalls = i\<rparr>)"
  by pat_completeness auto
termination
  by (relation "measure (\<lambda>(transport, clientd, rcv, i, len, r). len - i)") auto

declare recvmsg_loop.simps [simp del]

text \<open>
  Modelled from the spec: \<^verbatim>\<open>aeron_recvmsg\<close>, the wrapper of the scalar receive call,
  whose body is in a file that is not among the sources. Its argument is what the
  underlying call returns together with \<^verbatim>\<open>errno\<close>. The spec: "transient conditions
  (interrupted call, would-block): not errors, surfaced as zero progress" and "No
  internal retries beyond filtering OS-level transience"; any other failure is a negative
  result.
\<close>

definition aeron_recvmsg :: "int \<times> errno \<Rightarrow> int" where
  "aeron_recvmsg r =
     (case r of (result, err) \<Rightarrow>
        if result < 0 then (if EINTR = err \<or> EAGAIN = err then 0 else - 1) else result)"

text \<open>\<^verbatim>\<open>aeron_udp_channel_transport_recvmmsg\<close>, by the build's choice of path.\<close>

definition aeron_udp_channel_transport_recvmmsg ::
  "platform \<Rightarrow> recvmmsg_sys \<Rightarrow> (nat \<Rightarrow> int) \<Rightarrow> aeron_udp_channel_transport \<Rightarrow> mmsghdr list
     \<Rightarrow> nat \<Rightarrow> 64 word \<Rightarrow> ptr \<Rightarrow> io_result option" where
  "aeron_udp_channel_transport_recvmmsg p sys rcv transport msgvec vlen bytes_rcved clientd =
     (if defined_HAVE_RECVMMSG p
      then recvmmsg_vectorized p sys transport msgvec vlen bytes_rcved clientd
      else recvmsg_loop transport clientd rcv 0 vlen msgvec bytes_rcved [] 0)"

subsection \<open>Sending\<close>

text \<open>
  The loop of the scalar fallback of \<^verbatim>\<open>aeron_udp_channel_transport_sendmmsg\<close>. \<open>sendmsg i\<close> is
  the value \<^verbatim>\<open>aeron_sendmsg\<close> returns for message \<open>i\<close>.
\<close>

function sendmsg_loop ::
  "(nat \<Rightarrow> int) \<Rightarrow> nat \<Rightarrow> nat \<Rightarrow> mmsghdr list \<Rightarrow> int \<Rightarrow> io_result option" where
  "sendmsg_loop sendmsg i len msgvec result =
     (if i < len then
        (if i < length msgvec then
           (let sendmsg_result = sendmsg i in
            if sendmsg_result < 0 then
              Some \<lparr>io_ret = - 1, io_bytes = 0, io_calls = [],
                    io_msgvec = msgvec, io_syscalls = Suc i\<rparr>
            else
              (let mv = msgvec[i := (msgvec ! i)\<lparr>msg_len := word_of_int sendmsg_result\<rparr>]
               in if 0 = sendmsg_result then
                    Some \<lparr>io_ret = result, io_bytes = 0, io_calls = [],
                          io_msgvec = mv, io_syscalls = Suc i\<rparr>
                  else sendmsg_loop sendmsg (Suc i) len mv (result + 1)))
         else None)
      else Some \<lparr>io_ret = result, io_bytes = 0, io_calls = [],
                 io_msgvec = msgvec, io_syscalls = i\<rparr>)"
  by pat_completeness auto
termination
  by (relation "measure (\<lambda>(sendmsg, i, len, r). len - i)") auto

declare sendmsg_loop.simps [simp del]

text \<open>
  \<^verbatim>\<open>sendmmsg(fd, msgvec, vlen, 0)\<close> is a parameter: the returned value and the message
  vector as the kernel leaves it.
\<close>

type_synonym sendmmsg_sys = "int \<Rightarrow> mmsghdr list \<Rightarrow> nat \<Rightarrow> int \<times> mmsghdr list"

definition aeron_udp_channel_transport_sendmmsg ::
  "platform \<Rightarrow> sendmmsg_sys \<Rightarrow> (nat \<Rightarrow> int) \<Rightarrow> aeron_udp_channel_transport \<Rightarrow> mmsghdr list
     \<Rightarrow> nat \<Rightarrow> io_result option" where
  "aeron_udp_channel_transport_sendmmsg p sys sendmsg transport msgvec vlen =
     (if defined_HAVE_SENDMMSG p then
        (case sys (fd transport) msgvec vlen of
           (sendmmsg_result, mv') \<Rightarrow>
             if sendmmsg_result < 0
             then Some \<lparr>io_ret = - 1, io_bytes = 0, io_calls = [],
                        io_msgvec = mv', io_syscalls = 1\<rparr>
             else Some \<lparr>io_ret = sendmmsg_result, io_bytes = 0, io_calls = [],
                        io_msgvec = mv', io_syscalls = 1\<rparr>)
      else sendmsg_loop sendmsg 0 vlen msgvec 0)"

subsection \<open>What the steps after socket creation may change\<close>

text \<open>
  Binding, setting options and switching to non-blocking mode leave the descriptor, the
  bindings reference, the interceptor slots and the set of open sockets as they are; only
  the timestamp flag of the handle and the log of calls change.
\<close>

definition configures_only :: "init_state \<Rightarrow> init_state \<Rightarrow> bool" where
  "configures_only s s' =
     (fd (fst s') = fd (fst s) \<and>
      bindings_clientd (fst s') = bindings_clientd (fst s) \<and>
      interceptor_clientds (fst s') = interceptor_clientds (fst s) \<and>
      open_fds (snd s') = open_fds (snd s))"

definition quiet_step :: "init_step \<Rightarrow> bool" where
  "quiet_step f =
     (\<forall>s c s'. (f s = Inl (c, s') \<longrightarrow> configures_only s s') \<and>
               (f s = Inr s' \<longrightarrow> configures_only s s'))"

text \<open>
  A step keeps the handle when it leaves every field of it as it is and, if it fails,
  fails with a call other than the switch to non-blocking mode.
\<close>

definition keeps_handle :: "init_step \<Rightarrow> bool" where
  "keeps_handle f =
     (\<forall>s c s'. (f s = Inl (c, s') \<longrightarrow> fst s' = fst s \<and> (\<forall>d. c \<noteq> Sys_set_non_blocking d)) \<and>
               (f s = Inr s' \<longrightarrow> fst s' = fst s))"

text \<open>The steps of init between socket creation and the timestamp set-up.\<close>

definition plain_steps :: "platform \<Rightarrow> init_os \<Rightarrow> init_args \<Rightarrow> init_step list" where
  "plain_steps p e a =
     (if \<not> addr_is_multicast a then [step_bind e Bind_addr] else multicast_steps p e a) @
     (if 0 < socket_rcvbuf a then [step_setsockopt e SO_RCVBUF] else []) @
     (if 0 < socket_sndbuf a then [step_setsockopt e SO_SNDBUF] else [])"

text \<open>A step leaves an option alone when it adds no call that sets it to the log.\<close>

definition leaves_option_alone :: "sockopt \<Rightarrow> init_step \<Rightarrow> bool" where
  "leaves_option_alone opt f =
     (\<forall>s c s' d. (f s = Inl (c, s') \<or> f s = Inr s') \<longrightarrow>
        Sys_setsockopt d opt \<in> set (calls (snd s')) \<longrightarrow>
        Sys_setsockopt d opt \<in> set (calls (snd s)))"

text \<open>The operating system's state right after \<^verbatim>\<open>aeron_socket\<close> has succeeded.\<close>

definition socket_created :: "init_os \<Rightarrow> init_args \<Rightarrow> os_state \<Rightarrow> os_state" where
  "socket_created e a os =
     os_log (Sys_socket (ss_family a)) (os\<lparr>open_fds := insert (socket_result e) (open_fds os)\<rparr>)"

subsection \<open>Concrete inputs\<close>

text \<open>A Linux build (every optional facility present) and a build without the vectorized calls.\<close>

definition linux_build :: platform where
  "linux_build =
     \<lparr>defined_HAVE_RECVMMSG = True, defined_HAVE_SENDMMSG = True,
      defined_SO_REUSEADDR = True, defined_SO_REUSEPORT = True,
      defined_HAS_MEDIA_RCV_TIMESTAMPS = True,
      AERON_UDP_CHANNEL_TRANSPORT_MAX_INTERCEPTORS = 2,
      AERON_DRIVER_RECEIVER_NUM_RECV_BUFFERS = 2,
      AF_INET6 = 10, SOL_SOCKET = 1, SCM_TIMESTAMPNS = 35,
      CMSG_LEN_timespec = 32, CMSG_LEN_buf = 48\<rparr>"

definition scalar_build :: platform where
  "scalar_build = linux_build\<lparr>defined_HAVE_RECVMMSG := False, defined_HAVE_SENDMMSG := False\<rparr>"

text \<open>A handle as the caller may pass it to init: nothing in it is meaningful yet.\<close>

definition stale_handle :: aeron_udp_channel_transport where
  "stale_handle =
     \<lparr>fd = 99, data_paths = Ptr 1, dispatch_clientd = Ptr 2, bindings_clientd = Ptr 3,
      destination_clientd = Ptr 4, interceptor_clientds = (\<lambda>i. Ptr 5), timestamp_flags = 1\<rparr>"

text \<open>A handle bound to descriptor \<open>d\<close>, with timestamp flag \<open>flags\<close>.\<close>

definition bound_handle :: "int \<Rightarrow> 32 word \<Rightarrow> aeron_udp_channel_transport" where
  "bound_handle d flags =
     \<lparr>fd = d, data_paths = Ptr 1, dispatch_clientd = Ptr 2, bindings_clientd = NULL,
      destination_clientd = Ptr 4, interceptor_clientds = (\<lambda>i. NULL), timestamp_flags = flags\<rparr>"

definition os_with :: "int set \<Rightarrow> os_state" where
  "os_with fds = \<lparr>open_fds = fds, calls = []\<rparr>"

text \<open>An operating system that hands out descriptor \<open>d\<close> and lets every call succeed.\<close>

definition all_succeed :: "int \<Rightarrow> init_os" where
  "all_succeed d =
     \<lparr>socket_result = d, bind_result = 0, setsockopt_result = (\<lambda>opt. 0),
      set_non_blocking_result = 0\<rparr>"

definition unicast_args :: init_args where
  "unicast_args =
     \<lparr>ss_family = 2, addr_is_multicast = False, ttl = 0, socket_rcvbuf = 0,
      socket_sndbuf = 0, is_media_timestamping = True\<rparr>"

definition multicast_args :: init_args where
  "multicast_args =
     \<lparr>ss_family = 2, addr_is_multicast = True, ttl = 4, socket_rcvbuf = 131072,
      socket_sndbuf = 0, is_media_timestamping = False\<rparr>"

definition no_datagram :: recvmmsg_sys where
  "no_datagram d mv vlen = (- 1, EAGAIN, mv)"

text \<open>
  A kernel that delivers two datagrams: the first with a \<^verbatim>\<open>SCM_TIMESTAMPNS\<close> control
  message, the second with no control message.
\<close>

definition two_datagrams_one_timestamp :: recvmmsg_sys where
  "two_datagrams_one_timestamp d mv vlen =
     (2, Errno_other 0,
      [(mv ! 0)\<lparr>msg_len := 100,
                cmsg_firsthdr := Some \<lparr>cmsg_level = 1, cmsg_type = 35, cmsg_len = 32,
                                        cmsg_data = \<lparr>tv_sec = 1700000000, tv_nsec = 5\<rparr>\<rparr>\<rparr>,
       (mv ! 1)\<lparr>msg_len := 60, cmsg_firsthdr := None\<rparr>])"

definition no_send :: sendmmsg_sys where
  "no_send d mv vlen = (0, mv)"

text \<open>Slot \<open>k\<close> of a message vector of the caller, before any call.\<close>

definition empty_slot :: "nat \<Rightarrow> mmsghdr" where
  "empty_slot k =
     \<lparr>iov_base = Ptr (100 + k), msg_name = Ptr (200 + k), msg_control = Control_null,
      msg_controllen = 0, msg_len = 0, cmsg_firsthdr = None\<rparr>"

subsection \<open>Notions used to state what the receive paths do\<close>

text \<open>An invocation of the callback with its timestamp argument left out of account.\<close>

definition without_timestamp :: "recv_call \<Rightarrow> recv_call" where
  "without_timestamp c = c\<lparr>rc_media_rcv_timestamp := Timestamp_null\<rparr>"

text \<open>Slot \<open>k\<close> as the scalar path hands it to the callback: \<^verbatim>\<open>msg_len = (unsigned int)result\<close>.\<close>

definition received_slot :: "mmsghdr list \<Rightarrow> (nat \<Rightarrow> int) \<Rightarrow> nat \<Rightarrow> mmsghdr" where
  "received_slot msgvec rcv k = (msgvec ! k)\<lparr>msg_len := word_of_int (rcv k)\<rparr>"

section \<open>Lemmas\<close>

subsection \<open>Closing\<close>

lemma close_result:
  "aeron_udp_channel_transport_close transport os =
     (0, transport, if fd transport \<noteq> - 1 then aeron_close_socket (fd transport) os else os)"
  by (simp add: aeron_udp_channel_transport_close_def)

subsection \<open>Initialisation\<close>

lemma clear_interceptor_clientds_apply:
  "clear_interceptor_clientds i n cs j = (if i \<le> j \<and> j < n then NULL else cs j)"
proof (induction i n cs rule: clear_interceptor_clientds.induct)
  case (1 i n cs)
  show ?case
  proof (cases "i < n")
    case True
    have "clear_interceptor_clientds i n cs j =
          clear_interceptor_clientds (Suc i) n (cs(i := NULL)) j"
      using True by (subst clear_interceptor_clientds.simps) simp
    also have "\<dots> = (if Suc i \<le> j \<and> j < n then NULL else (cs(i := NULL)) j)"
      using True by (rule "1.IH")
    also have "\<dots> = (if i \<le> j \<and> j < n then NULL else cs j)"
      using True by auto
    finally show ?thesis .
  next
    case False
    then show ?thesis
      by (subst clear_interceptor_clientds.simps) auto
  qed
qed

lemma configures_only_refl: "configures_only s s"
  by (simp add: configures_only_def)

lemma configures_only_trans:
  "configures_only s s' \<Longrightarrow> configures_only s' s'' \<Longrightarrow> configures_only s s''"
  by (simp add: configures_only_def)

lemma quiet_step_Inl: "quiet_step f \<Longrightarrow> f s = Inl (c, s') \<Longrightarrow> configures_only s s'"
  unfolding quiet_step_def by blast

lemma quiet_step_Inr: "quiet_step f \<Longrightarrow> f s = Inr s' \<Longrightarrow> configures_only s s'"
  unfolding quiet_step_def by blast

lemma quiet_step_setsockopt: "quiet_step (step_setsockopt e opt)"
  by (auto simp: quiet_step_def step_setsockopt_def configures_only_def os_log_def Let_def
           split: prod.splits if_splits)

lemma quiet_step_bind: "quiet_step (step_bind e target)"
  by (auto simp: quiet_step_def step_bind_def configures_only_def os_log_def Let_def
           split: prod.splits if_splits)

lemma quiet_step_set_non_blocking: "quiet_step (step_set_non_blocking e)"
  by (auto simp: quiet_step_def step_set_non_blocking_def configures_only_def os_log_def Let_def
           split: prod.splits if_splits)

lemma quiet_step_timestamps:
  "quiet_step (aeron_udp_channel_transport_setup_media_rcv_timestamps p e)"
  by (auto simp: quiet_step_def aeron_udp_channel_transport_setup_media_rcv_timestamps_def
                 step_setsockopt_def configures_only_def os_log_def Let_def
           split: prod.splits sum.splits if_splits)

lemmas quiet_steps =
  quiet_step_setsockopt quiet_step_bind quiet_step_set_non_blocking quiet_step_timestamps

lemma quiet_multicast_steps: "f \<in> set (multicast_steps p e a) \<Longrightarrow> quiet_step f"
  by (auto simp: multicast_steps_def quiet_steps split: if_splits)

lemma quiet_configure_steps: "f \<in> set (configure_steps p e a) \<Longrightarrow> quiet_step f"
  by (auto simp: configure_steps_def quiet_steps quiet_multicast_steps split: if_splits)

lemma run_steps_quiet:
  assumes "\<forall>f \<in> set fs. quiet_step f"
    and "run_steps fs s = Inl (c, s') \<or> run_steps fs s = Inr s'"
  shows "configures_only s s'"
  using assms
proof (induction fs arbitrary: s)
  case Nil
  then show ?case by (simp add: configures_only_refl)
next
  case (Cons f fs)
  from Cons.prems have qf: "quiet_step f" and qfs: "\<forall>g \<in> set fs. quiet_step g"
    by simp_all
  show ?case
  proof (cases "f s")
    case (Inl err)
    with Cons.prems(2) have "f s = Inl (c, s')" by simp
    with qf show ?thesis by (rule quiet_step_Inl)
  next
    case (Inr s1)
    with qf have 1: "configures_only s s1" by (rule quiet_step_Inr)
    from Cons.prems(2) Inr
    have "run_steps fs s1 = Inl (c, s') \<or> run_steps fs s1 = Inr s'" by simp
    with qfs have "configures_only s1 s'" by (rule Cons.IH)
    with 1 show ?thesis by (rule configures_only_trans)
  qed
qed

lemma init_socket_fails:
  assumes "socket_result e < 0"
  shows "aeron_udp_channel_transport_init p e a transport os =
           \<lparr>ir_ret = - 1, ir_failed = Some (Sys_socket (ss_family a)),
            ir_transport = reset_handle p transport,
            ir_os = (if - 1 \<noteq> socket_result e
                     then aeron_close_socket (socket_result e) (os_log (Sys_socket (ss_family a)) os)
                     else os_log (Sys_socket (ss_family a)) os)\<rparr>"
  using assms
  by (simp add: aeron_udp_channel_transport_init_def step_socket_def reset_handle_def Let_def)

lemma init_socket_ok:
  assumes "0 \<le> socket_result e"
  shows "aeron_udp_channel_transport_init p e a transport os =
           (case run_steps (configure_steps p e a)
                   ((reset_handle p transport)\<lparr>fd := socket_result e\<rparr>, socket_created e a os) of
              Inr (transport', os') \<Rightarrow>
                \<lparr>ir_ret = 0, ir_failed = None, ir_transport = transport', ir_os = os'\<rparr>
            | Inl (c, transport', os') \<Rightarrow>
                \<lparr>ir_ret = - 1, ir_failed = Some c,
                 ir_transport = transport'\<lparr>fd := - 1\<rparr>,
                 ir_os = (if - 1 \<noteq> fd transport'
                          then aeron_close_socket (fd transport') os' else os')\<rparr>)"
  using assms
  by (simp add: aeron_udp_channel_transport_init_def step_socket_def reset_handle_def
        socket_created_def Let_def)

text \<open>Whatever the outcome, init leaves the slots and the bindings reference reset.\<close>

lemma init_slots_reset:
  "interceptor_clientds (ir_transport (aeron_udp_channel_transport_init p e a transport os)) =
     clear_interceptor_clientds 0 (AERON_UDP_CHANNEL_TRANSPORT_MAX_INTERCEPTORS p)
       (interceptor_clientds transport) \<and>
   bindings_clientd (ir_transport (aeron_udp_channel_transport_init p e a transport os)) = NULL"
proof (cases "socket_result e < 0")
  case True
  then show ?thesis
    by (simp add: init_socket_fails reset_handle_def)
next
  case False
  then have ok: "0 \<le> socket_result e" by simp
  let ?s1 = "((reset_handle p transport)\<lparr>fd := socket_result e\<rparr>, socket_created e a os)"
  have keeps: "interceptor_clientds t' = interceptor_clientds (reset_handle p transport)
               \<and> bindings_clientd t' = NULL"
    if "run_steps (configure_steps p e a) ?s1 = Inl (c, t', os')
        \<or> run_steps (configure_steps p e a) ?s1 = Inr (t', os')" for c t' os'
  proof -
    have "configures_only ?s1 (t', os')"
      by (rule run_steps_quiet [where fs = "configure_steps p e a" and c = c])
         (use that in \<open>auto intro: quiet_configure_steps\<close>)
    then show ?thesis
      by (simp add: configures_only_def reset_handle_def)
  qed
  show ?thesis
  proof (cases "run_steps (configure_steps p e a) ?s1")
    case (Inl err)
    obtain c t' os' where "err = (c, t', os')" by (cases err) auto
    with Inl keeps [of c t' os'] ok show ?thesis
      by (simp add: init_socket_ok reset_handle_def)
  next
    case (Inr s')
    obtain t' os' where "s' = (t', os')" by (cases s') auto
    with Inr keeps [of "Sys_socket 0" t' os'] ok show ?thesis
      by (simp add: init_socket_ok reset_handle_def)
  qed
qed

lemma init_failure_cleanup_aux:
  assumes fresh: "socket_result e \<notin> open_fds os"
    and fails: "ir_ret (aeron_udp_channel_transport_init p e a transport os) \<noteq> 0"
  shows "ir_ret (aeron_udp_channel_transport_init p e a transport os) = - 1 \<and>
         fd (ir_transport (aeron_udp_channel_transport_init p e a transport os)) = - 1 \<and>
         open_fds (ir_os (aeron_udp_channel_transport_init p e a transport os)) = open_fds os \<and>
         (0 \<le> socket_result e \<longrightarrow>
            last (calls (ir_os (aeron_udp_channel_transport_init p e a transport os)))
              = Sys_close_socket (socket_result e))"
proof (cases "socket_result e < 0")
  case True
  with fresh show ?thesis
    by (simp add: init_socket_fails reset_handle_def aeron_close_socket_def os_log_def)
next
  case False
  then have ok: "0 \<le> socket_result e" by simp
  let ?s1 = "((reset_handle p transport)\<lparr>fd := socket_result e\<rparr>, socket_created e a os)"
  show ?thesis
  proof (cases "run_steps (configure_steps p e a) ?s1")
    case (Inr s')
    with fails ok show ?thesis
      by (simp add: init_socket_ok split: prod.splits)
  next
    case (Inl err)
    obtain c transport' os' where err: "err = (c, transport', os')"
      by (cases err) auto
    have "configures_only ?s1 (transport', os')"
      by (rule run_steps_quiet [where fs = "configure_steps p e a" and c = c])
         (use Inl err in \<open>auto intro: quiet_configure_steps\<close>)
    then have keeps:
      "fd transport' = socket_result e"
      "open_fds os' = insert (socket_result e) (open_fds os)"
      by (simp_all add: configures_only_def reset_handle_def socket_created_def os_log_def)
    from ok Inl err keeps fresh show ?thesis
      by (simp add: init_socket_ok aeron_close_socket_def os_log_def)
  qed
qed


subsection \<open>The handle after a failed initialisation\<close>

lemma configure_steps_split:
  "configure_steps p e a =
     plain_steps p e a @
     (if is_media_timestamping a
      then [aeron_udp_channel_transport_setup_media_rcv_timestamps p e] else []) @
     [step_set_non_blocking e]"
  by (simp add: configure_steps_def plain_steps_def)

lemma run_steps_append:
  "run_steps (fs @ gs) s =
     (case run_steps fs s of Inl err \<Rightarrow> Inl err | Inr s' \<Rightarrow> run_steps gs s')"
  by (induction fs arbitrary: s) (auto split: sum.splits)

lemma keeps_handle_Inl:
  "keeps_handle f \<Longrightarrow> f s = Inl (c, s') \<Longrightarrow> fst s' = fst s \<and> (\<forall>d. c \<noteq> Sys_set_non_blocking d)"
  unfolding keeps_handle_def by blast

lemma keeps_handle_Inr: "keeps_handle f \<Longrightarrow> f s = Inr s' \<Longrightarrow> fst s' = fst s"
  unfolding keeps_handle_def by blast

lemma keeps_handle_setsockopt: "keeps_handle (step_setsockopt e opt)"
  by (auto simp: keeps_handle_def step_setsockopt_def Let_def split: prod.splits if_splits)

lemma keeps_handle_bind: "keeps_handle (step_bind e target)"
  by (auto simp: keeps_handle_def step_bind_def Let_def split: prod.splits if_splits)

lemma keeps_handle_plain_steps: "f \<in> set (plain_steps p e a) \<Longrightarrow> keeps_handle f"
  by (auto simp: plain_steps_def multicast_steps_def keeps_handle_setsockopt keeps_handle_bind
           split: if_splits)

lemma run_steps_keeps_handle:
  assumes "\<forall>f \<in> set fs. keeps_handle f"
  shows "(run_steps fs s = Inl (c, s') \<longrightarrow> fst s' = fst s \<and> (\<forall>d. c \<noteq> Sys_set_non_blocking d)) \<and>
         (run_steps fs s = Inr s' \<longrightarrow> fst s' = fst s)"
  using assms
proof (induction fs arbitrary: s)
  case Nil
  then show ?case by simp
next
  case (Cons f fs)
  from Cons.prems have kf: "keeps_handle f" and kfs: "\<forall>g \<in> set fs. keeps_handle g"
    by simp_all
  show ?case
  proof (cases "f s")
    case (Inl err)
    with keeps_handle_Inl [OF kf, of s c s'] show ?thesis by auto
  next
    case (Inr s1)
    with keeps_handle_Inr [OF kf, of s s1] have "fst s1 = fst s" by simp
    with Cons.IH [OF kfs, of s1] Inr show ?thesis by simp
  qed
qed

lemma setup_timestamps_Inl:
  assumes "aeron_udp_channel_transport_setup_media_rcv_timestamps p e (t, os) = Inl (c, t', os')"
  shows "t' = t \<and> (\<forall>d. c \<noteq> Sys_set_non_blocking d)"
  using assms
  by (auto simp: aeron_udp_channel_transport_setup_media_rcv_timestamps_def step_setsockopt_def
        Let_def split: if_splits sum.splits prod.splits)

lemma setup_timestamps_Inr:
  assumes "aeron_udp_channel_transport_setup_media_rcv_timestamps p e (t, os) = Inr (t', os')"
  shows "t' = (if defined_HAS_MEDIA_RCV_TIMESTAMPS p
               then t\<lparr>timestamp_flags := AERON_UDP_CHANNEL_TRANSPORT_MEDIA_RCV_TIMESTAMP\<rparr>
               else t)"
  using assms
  by (auto simp: aeron_udp_channel_transport_setup_media_rcv_timestamps_def step_setsockopt_def
        Let_def split: if_splits sum.splits prod.splits)

lemma set_non_blocking_Inl:
  assumes "step_set_non_blocking e (t, os) = Inl (c, t', os')"
  shows "t' = t \<and> c = Sys_set_non_blocking (fd t)"
  using assms by (auto simp: step_set_non_blocking_def Let_def split: if_splits)

lemma configure_failure_handle:
  assumes "run_steps (configure_steps p e a) (t, os) = Inl (c, t', os')"
  shows "t' = t\<lparr>timestamp_flags :=
                  (if c = Sys_set_non_blocking (fd t) \<and> is_media_timestamping a \<and>
                      defined_HAS_MEDIA_RCV_TIMESTAMPS p
                   then AERON_UDP_CHANNEL_TRANSPORT_MEDIA_RCV_TIMESTAMP
                   else timestamp_flags t)\<rparr>"
proof (cases "run_steps (plain_steps p e a) (t, os)")
  case (Inl err)
  with assms have "run_steps (plain_steps p e a) (t, os) = Inl (c, t', os')"
    by (simp add: configure_steps_split run_steps_append)
  with run_steps_keeps_handle [of "plain_steps p e a" "(t, os)" c "(t', os')"]
  show ?thesis by (auto simp: keeps_handle_plain_steps)
next
  case (Inr s1)
  obtain t1 os1 where s1: "s1 = (t1, os1)" by (cases s1) auto
  with Inr run_steps_keeps_handle [of "plain_steps p e a" "(t, os)" c "(t1, os1)"]
  have t1: "t1 = t" by (auto simp: keeps_handle_plain_steps)
  show ?thesis
  proof (cases "is_media_timestamping a")
    case False
    with assms Inr s1 t1 have "step_set_non_blocking e (t, os1) = Inl (c, t', os')"
      by (simp add: configure_steps_split run_steps_append split: sum.splits)
    from set_non_blocking_Inl [OF this] False show ?thesis by simp
  next
    case True
    show ?thesis
    proof (cases "aeron_udp_channel_transport_setup_media_rcv_timestamps p e (t, os1)")
      case (Inl err)
      with assms Inr s1 t1 True
      have "aeron_udp_channel_transport_setup_media_rcv_timestamps p e (t, os1) = Inl (c, t', os')"
        by (simp add: configure_steps_split run_steps_append)
      from setup_timestamps_Inl [OF this] show ?thesis by simp
    next
      case (Inr s2)
      obtain t2 os2 where s2: "s2 = (t2, os2)" by (cases s2) auto
      from setup_timestamps_Inr [of p e t os1 t2 os2] Inr s2
      have t2: "t2 = (if defined_HAS_MEDIA_RCV_TIMESTAMPS p
                      then t\<lparr>timestamp_flags := AERON_UDP_CHANNEL_TRANSPORT_MEDIA_RCV_TIMESTAMP\<rparr>
                      else t)"
        by simp
      from assms \<open>run_steps (plain_steps p e a) (t, os) = Inr s1\<close> s1 t1 True Inr s2
      have "step_set_non_blocking e (t2, os2) = Inl (c, t', os')"
        by (simp add: configure_steps_split run_steps_append split: sum.splits)
      from set_non_blocking_Inl [OF this] t2 True show ?thesis by auto
    qed
  qed
qed

lemma init_failure_handle:
  assumes fails: "ir_ret (aeron_udp_channel_transport_init p e a transport os) \<noteq> 0"
  shows "timestamp_flags (ir_transport (aeron_udp_channel_transport_init p e a transport os)) =
           (if ir_failed (aeron_udp_channel_transport_init p e a transport os)
                 = Some (Sys_set_non_blocking (socket_result e)) \<and>
               is_media_timestamping a \<and> defined_HAS_MEDIA_RCV_TIMESTAMPS p
            then AERON_UDP_CHANNEL_TRANSPORT_MEDIA_RCV_TIMESTAMP
            else AERON_UDP_CHANNEL_TRANSPORT_MEDIA_RCV_TIMESTAMP_NONE) \<and>
         data_paths (ir_transport (aeron_udp_channel_transport_init p e a transport os))
           = data_paths transport \<and>
         dispatch_clientd (ir_transport (aeron_udp_channel_transport_init p e a transport os))
           = dispatch_clientd transport \<and>
         destination_clientd (ir_transport (aeron_udp_channel_transport_init p e a transport os))
           = destination_clientd transport"
proof (cases "socket_result e < 0")
  case True
  then show ?thesis
    by (simp add: init_socket_fails reset_handle_def)
next
  case False
  then have ok: "0 \<le> socket_result e" by simp
  let ?t1 = "(reset_handle p transport)\<lparr>fd := socket_result e\<rparr>"
  show ?thesis
  proof (cases "run_steps (configure_steps p e a) (?t1, socket_created e a os)")
    case (Inr s')
    with fails ok show ?thesis
      by (simp add: init_socket_ok split: prod.splits)
  next
    case (Inl err)
    obtain c t' os' where err: "err = (c, t', os')" by (cases err) auto
    from configure_failure_handle [of p e a ?t1 "socket_created e a os" c t' os'] Inl err
    have "t' = ?t1\<lparr>timestamp_flags :=
                  (if c = Sys_set_non_blocking (socket_result e) \<and> is_media_timestamping a \<and>
                      defined_HAS_MEDIA_RCV_TIMESTAMPS p
                   then AERON_UDP_CHANNEL_TRANSPORT_MEDIA_RCV_TIMESTAMP
                   else timestamp_flags ?t1)\<rparr>"
      by simp
    with ok Inl err show ?thesis
      by (simp add: init_socket_ok reset_handle_def)
  qed
qed

subsection \<open>The loops of the receive and send paths\<close>

lemma int_of_size_t_le: "int_of_size_t n \<le> int n"
proof -
  have "(0::int) \<le> uint (word_of_nat n :: 32 word)"
    by simp
  then have "- 2147483648 \<le> uint (word_of_nat n :: 32 word)"
    by linarith
  then have "sint (word_of_nat n :: 32 word) \<le> uint (word_of_nat n :: 32 word)"
    by (simp add: sint_uint signed_take_bit_int_less_eq_self_iff)
  also have "\<dots> \<le> int n"
    by (simp add: unsigned_of_nat)
  finally show ?thesis by (simp add: int_of_size_t_def)
qed

lemma attach_control_in_range:
  assumes "vlen \<le> length msgvec \<or> AERON_DRIVER_RECEIVER_NUM_RECV_BUFFERS p \<le> length msgvec"
  shows "\<exists>mv. attach_control p i vlen msgvec = Some mv \<and> length mv = length msgvec"
  using assms
proof (induction p i vlen msgvec rule: attach_control.induct)
  case (1 p i vlen msgvec)
  show ?case
  proof (cases "int i < int_of_size_t vlen \<and> i < AERON_DRIVER_RECEIVER_NUM_RECV_BUFFERS p")
    case True
    with int_of_size_t_le [of vlen] have "i < vlen" by simp
    with True "1.prems" have inr: "i < length msgvec" by auto
    let ?mv = "msgvec[i := (msgvec ! i)\<lparr>msg_control := Control_buf i,
                                          msg_controllen := CMSG_LEN_buf p\<rparr>]"
    from "1.prems" have "vlen \<le> length ?mv \<or> AERON_DRIVER_RECEIVER_NUM_RECV_BUFFERS p \<le> length ?mv"
      by simp
    with "1.IH" [OF True inr] obtain mv
      where "attach_control p (Suc i) vlen ?mv = Some mv" "length mv = length ?mv"
      by blast
    with True inr show ?thesis
      by (subst attach_control.simps) simp
  next
    case False
    then show ?thesis
      by (subst attach_control.simps) auto
  qed
qed

lemma without_timestamp_call [simp]:
  "without_timestamp (recv_func_call transport clientd m ts) =
     recv_func_call transport clientd m Timestamp_null"
  by (simp add: without_timestamp_def recv_func_call_def)

lemma recvmmsg_dispatch_run:
  assumes "len \<le> length msgvec"
  shows "\<exists>cs'. recvmmsg_dispatch p transport clientd msgvec i len ts b cs =
                 Some (b + sum_list (map (\<lambda>k. ucast (msg_len (msgvec ! k))) [i..<len]), cs @ cs')
              \<and> map without_timestamp cs' =
                 map (\<lambda>k. recv_func_call transport clientd (msgvec ! k) Timestamp_null) [i..<len]"
  using assms
proof (induction p transport clientd msgvec i len ts b cs rule: recvmmsg_dispatch.induct)
  case (1 p transport clientd msgvec i len ts b cs)
  show ?case
  proof (cases "i < len")
    case True
    with "1.prems" have inr: "i < length msgvec" by simp
    let ?m = "msgvec ! i"
    let ?ts = "next_media_rcv_timestamp p i ?m ts"
    from "1.IH" [OF True inr refl refl "1.prems"] obtain cs' where
      run: "recvmmsg_dispatch p transport clientd msgvec (Suc i) len ?ts
              (b + ucast (msg_len ?m)) (cs @ [recv_func_call transport clientd ?m ?ts]) =
            Some (b + ucast (msg_len ?m)
                    + sum_list (map (\<lambda>k. ucast (msg_len (msgvec ! k))) [Suc i..<len]),
                  (cs @ [recv_func_call transport clientd ?m ?ts]) @ cs')"
      and cs': "map without_timestamp cs' =
            map (\<lambda>k. recv_func_call transport clientd (msgvec ! k) Timestamp_null) [Suc i..<len]"
      by blast
    have "recvmmsg_dispatch p transport clientd msgvec i len ts b cs =
            Some (b + sum_list (map (\<lambda>k. ucast (msg_len (msgvec ! k))) [i..<len]),
                  cs @ (recv_func_call transport clientd ?m ?ts # cs'))"
      using True inr run
      by (subst recvmmsg_dispatch.simps) (simp add: upt_conv_Cons Let_def add.assoc)
    moreover have "map without_timestamp (recv_func_call transport clientd ?m ?ts # cs') =
            map (\<lambda>k. recv_func_call transport clientd (msgvec ! k) Timestamp_null) [i..<len]"
      using True cs' by (simp add: upt_conv_Cons)
    ultimately show ?thesis by blast
  next
    case False
    then show ?thesis
      by (subst recvmmsg_dispatch.simps) simp
  qed
qed


lemma received_slot_update:
  "i < k \<Longrightarrow> received_slot (msgvec[i := m]) rcv k = received_slot msgvec rcv k"
  by (simp add: received_slot_def)

lemma recvmsg_loop_run:
  assumes "n = j - i" and "i \<le> j" and "j \<le> len" and "len \<le> length msgvec"
    and "\<forall>k. i \<le> k \<and> k < j \<longrightarrow> 0 < rcv k"
    and "j < len \<longrightarrow> rcv j = 0"
  shows "\<exists>mv. recvmsg_loop transport clientd rcv i len msgvec b cs w =
           Some \<lparr>io_ret = w + int (j - i),
                 io_bytes = b + sum_list (map (\<lambda>k. ucast (msg_len (received_slot msgvec rcv k))) [i..<j]),
                 io_calls = cs @ map (\<lambda>k. recv_func_call transport clientd
                                             (received_slot msgvec rcv k) Timestamp_null) [i..<j],
                 io_msgvec = mv,
                 io_syscalls = (if j < len then Suc j else j)\<rparr>"
  using assms
proof (induction n arbitrary: i msgvec b cs w)
  case 0
  then have ij: "i = j" by simp
  show ?case
  proof (cases "j < len")
    case True
    with 0 ij show ?thesis
      by (subst recvmsg_loop.simps) simp
  next
    case False
    with 0 ij show ?thesis
      by (subst recvmsg_loop.simps) simp
  qed
next
  case (Suc n)
  then have lt: "i < j" and pos: "0 < rcv i" by auto
  with Suc.prems have inr: "i < len" "i < length msgvec" by auto
  let ?m = "received_slot msgvec rcv i"
  let ?mv = "msgvec[i := ?m]"
  have same1: "map (\<lambda>k. (ucast (msg_len (received_slot ?mv rcv k)) :: 64 word)) [Suc i..<j] =
               map (\<lambda>k. ucast (msg_len (received_slot msgvec rcv k))) [Suc i..<j]"
    by (rule map_cong) (simp_all add: received_slot_update)
  have same2: "map (\<lambda>k. recv_func_call transport clientd (received_slot ?mv rcv k) Timestamp_null)
                 [Suc i..<j] =
               map (\<lambda>k. recv_func_call transport clientd (received_slot msgvec rcv k) Timestamp_null)
                 [Suc i..<j]"
    by (rule map_cong) (simp_all add: received_slot_update)
  have "\<exists>mv. recvmsg_loop transport clientd rcv (Suc i) len ?mv
               (b + ucast (msg_len ?m))
               (cs @ [recv_func_call transport clientd ?m Timestamp_null]) (w + 1) =
           Some \<lparr>io_ret = (w + 1) + int (j - Suc i),
                 io_bytes = (b + ucast (msg_len ?m))
                   + sum_list (map (\<lambda>k. ucast (msg_len (received_slot ?mv rcv k))) [Suc i..<j]),
                 io_calls = (cs @ [recv_func_call transport clientd ?m Timestamp_null])
                   @ map (\<lambda>k. recv_func_call transport clientd
                                 (received_slot ?mv rcv k) Timestamp_null) [Suc i..<j],
                 io_msgvec = mv,
                 io_syscalls = (if j < len then Suc j else j)\<rparr>"
    using Suc.prems lt by (intro Suc.IH) auto
  then obtain mv where run:
    "recvmsg_loop transport clientd rcv (Suc i) len ?mv
       (b + ucast (msg_len ?m))
       (cs @ [recv_func_call transport clientd ?m Timestamp_null]) (w + 1) =
     Some \<lparr>io_ret = (w + 1) + int (j - Suc i),
           io_bytes = (b + ucast (msg_len ?m))
             + sum_list (map (\<lambda>k. ucast (msg_len (received_slot msgvec rcv k))) [Suc i..<j]),
           io_calls = (cs @ [recv_func_call transport clientd ?m Timestamp_null])
             @ map (\<lambda>k. recv_func_call transport clientd
                           (received_slot msgvec rcv k) Timestamp_null) [Suc i..<j],
           io_msgvec = mv,
           io_syscalls = (if j < len then Suc j else j)\<rparr>"
    unfolding same1 same2 by blast
  have step: "recvmsg_loop transport clientd rcv i len msgvec b cs w =
        recvmsg_loop transport clientd rcv (Suc i) len ?mv
          (b + ucast (msg_len ?m))
          (cs @ [recv_func_call transport clientd ?m Timestamp_null]) (w + 1)"
    using inr pos
    by (subst recvmsg_loop.simps) (simp add: Let_def received_slot_def)
  have arith: "(w + 1) + int (j - Suc i) = w + int (j - i)"
    using lt by simp
  show ?case
    unfolding step run arith using lt
    by (simp add: upt_conv_Cons add.assoc)
qed

subsection \<open>The reuse options of the multicast branch\<close>

lemma step_setsockopt_fails:
  "setsockopt_result e opt < 0 \<Longrightarrow>
   step_setsockopt e opt (transport, os) =
     Inl (Sys_setsockopt (fd transport) opt, transport,
          os_log (Sys_setsockopt (fd transport) opt) os)"
  by (simp add: step_setsockopt_def Let_def)

lemma step_setsockopt_succeeds:
  "\<not> setsockopt_result e opt < 0 \<Longrightarrow>
   step_setsockopt e opt (transport, os) =
     Inr (transport, os_log (Sys_setsockopt (fd transport) opt) os)"
  by (simp add: step_setsockopt_def Let_def)

lemma reuse_steps_fail:
  assumes "addr_is_multicast a"
    and "(defined_SO_REUSEADDR p \<and> setsockopt_result e SO_REUSEADDR < 0) \<or>
         (defined_SO_REUSEPORT p \<and> setsockopt_result e SO_REUSEPORT < 0)"
  shows "\<exists>opt os'. (opt = SO_REUSEADDR \<or> opt = SO_REUSEPORT) \<and>
           run_steps (configure_steps p e a) (transport, os) =
             Inl (Sys_setsockopt (fd transport) opt, transport, os')"
proof (cases "defined_SO_REUSEADDR p \<and> setsockopt_result e SO_REUSEADDR < 0")
  case True
  with assms(1) show ?thesis
    by (auto simp: configure_steps_def multicast_steps_def step_setsockopt_fails)
next
  case False
  with assms(2) have port: "defined_SO_REUSEPORT p" "setsockopt_result e SO_REUSEPORT < 0"
    by auto
  show ?thesis
  proof (cases "defined_SO_REUSEADDR p")
    case True
    with False have "\<not> setsockopt_result e SO_REUSEADDR < 0" by simp
    with True port assms(1) show ?thesis
      by (auto simp: configure_steps_def multicast_steps_def step_setsockopt_fails
            step_setsockopt_succeeds)
  next
    case False
    with port assms(1) show ?thesis
      by (auto simp: configure_steps_def multicast_steps_def step_setsockopt_fails)
  qed
qed

lemma leaves_option_aloneD:
  "leaves_option_alone opt f \<Longrightarrow> f s = Inl (c, s') \<or> f s = Inr s' \<Longrightarrow>
   Sys_setsockopt d opt \<in> set (calls (snd s')) \<Longrightarrow> Sys_setsockopt d opt \<in> set (calls (snd s))"
  unfolding leaves_option_alone_def by blast

lemma alone_setsockopt: "opt' \<noteq> opt \<Longrightarrow> leaves_option_alone opt (step_setsockopt e opt')"
  by (auto simp: leaves_option_alone_def step_setsockopt_def os_log_def Let_def
           split: prod.splits if_splits)

lemma alone_bind: "leaves_option_alone opt (step_bind e target)"
  by (auto simp: leaves_option_alone_def step_bind_def os_log_def Let_def
           split: prod.splits if_splits)

lemma alone_set_non_blocking: "leaves_option_alone opt (step_set_non_blocking e)"
  by (auto simp: leaves_option_alone_def step_set_non_blocking_def os_log_def Let_def
           split: prod.splits if_splits)

lemma alone_socket: "leaves_option_alone opt (step_socket e a)"
  by (auto simp: leaves_option_alone_def step_socket_def os_log_def Let_def
           split: prod.splits if_splits)

lemma alone_timestamps:
  "opt \<noteq> SO_TIMESTAMPNS \<Longrightarrow> opt \<noteq> SO_TIMESTAMPING \<Longrightarrow>
   leaves_option_alone opt (aeron_udp_channel_transport_setup_media_rcv_timestamps p e)"
  by (auto simp: leaves_option_alone_def
                 aeron_udp_channel_transport_setup_media_rcv_timestamps_def
                 step_setsockopt_def os_log_def Let_def
           split: prod.splits sum.splits if_splits)

lemmas alone_steps =
  alone_setsockopt alone_bind alone_set_non_blocking alone_socket alone_timestamps

lemma alone_reuseaddr:
  assumes "\<not> defined_SO_REUSEADDR p" and "f \<in> set (step_socket e a # configure_steps p e a)"
  shows "leaves_option_alone SO_REUSEADDR f"
  using assms
  by (auto simp: configure_steps_def multicast_steps_def alone_steps split: if_splits)

lemma alone_reuseport:
  assumes "\<not> defined_SO_REUSEPORT p" and "f \<in> set (step_socket e a # configure_steps p e a)"
  shows "leaves_option_alone SO_REUSEPORT f"
  using assms
  by (auto simp: configure_steps_def multicast_steps_def alone_steps split: if_splits)

lemma run_steps_alone:
  assumes "\<forall>f \<in> set fs. leaves_option_alone opt f"
    and "run_steps fs s = Inl (c, s') \<or> run_steps fs s = Inr s'"
    and "Sys_setsockopt d opt \<in> set (calls (snd s'))"
  shows "Sys_setsockopt d opt \<in> set (calls (snd s))"
  using assms
proof (induction fs arbitrary: s)
  case Nil
  then show ?case by simp
next
  case (Cons f fs)
  from Cons.prems have lf: "leaves_option_alone opt f"
    and lfs: "\<forall>g \<in> set fs. leaves_option_alone opt g"
    by simp_all
  show ?case
  proof (cases "f s")
    case (Inl err)
    with Cons.prems(2) have "f s = Inl (c, s') \<or> f s = Inr s'" by simp
    from leaves_option_aloneD [OF lf this Cons.prems(3)] show ?thesis .
  next
    case (Inr s1)
    with Cons.prems(2)
    have "run_steps fs s1 = Inl (c, s') \<or> run_steps fs s1 = Inr s'" by simp
    from Cons.IH [OF lfs this Cons.prems(3)]
    have "Sys_setsockopt d opt \<in> set (calls (snd s1))" .
    with leaves_option_aloneD [OF lf, of s c s1 d] Inr show ?thesis by simp
  qed
qed

lemma init_never_sets:
  assumes alone: "\<forall>f \<in> set (step_socket e a # configure_steps p e a). leaves_option_alone opt f"
    and "Sys_setsockopt d opt \<in> set (calls (ir_os (aeron_udp_channel_transport_init p e a transport os)))"
  shows "Sys_setsockopt d opt \<in> set (calls os)"
proof (cases "run_steps (step_socket e a # configure_steps p e a) (reset_handle p transport, os)")
  case (Inl err)
  obtain c t' os' where err: "err = (c, t', os')" by (cases err) auto
  with Inl assms(2) have "Sys_setsockopt d opt \<in> set (calls os')"
    by (simp add: aeron_udp_channel_transport_init_def aeron_close_socket_def os_log_def
          split: if_splits)
  with run_steps_alone [OF alone, of "(reset_handle p transport, os)" c "(t', os')" d] Inl err
  show ?thesis by simp
next
  case (Inr s')
  obtain t' os' where s': "s' = (t', os')" by (cases s') auto
  with Inr assms(2) have "Sys_setsockopt d opt \<in> set (calls os')"
    by (simp add: aeron_udp_channel_transport_init_def)
  with run_steps_alone [OF alone, of "(reset_handle p transport, os)" "Sys_socket 0" "(t', os')" d]
    Inr s'
  show ?thesis by simp
qed

lemma steps_ignore_absent_reuseaddr:
  assumes "\<not> defined_SO_REUSEADDR p"
  shows "configure_steps p
           (e\<lparr>setsockopt_result := (setsockopt_result e)(SO_REUSEADDR := x)\<rparr>) a
         = configure_steps p e a"
proof -
  let ?e = "e\<lparr>setsockopt_result := (setsockopt_result e)(SO_REUSEADDR := x)\<rparr>"
  have opt: "step_setsockopt ?e opt = step_setsockopt e opt" if "opt \<noteq> SO_REUSEADDR" for opt
    using that by (intro ext) (simp add: step_setsockopt_def)
  have bind: "step_bind ?e target = step_bind e target" for target
    by (intro ext) (simp add: step_bind_def)
  have nb: "step_set_non_blocking ?e = step_set_non_blocking e"
    by (intro ext) (simp add: step_set_non_blocking_def)
  have ts: "aeron_udp_channel_transport_setup_media_rcv_timestamps p ?e =
            aeron_udp_channel_transport_setup_media_rcv_timestamps p e"
    by (intro ext)
       (simp add: aeron_udp_channel_transport_setup_media_rcv_timestamps_def opt
             split: sum.splits)
  from assms show ?thesis
    by (simp add: configure_steps_def multicast_steps_def opt bind nb ts)
qed

lemma steps_ignore_absent_reuseport:
  assumes "\<not> defined_SO_REUSEPORT p"
  shows "configure_steps p
           (e\<lparr>setsockopt_result := (setsockopt_result e)(SO_REUSEPORT := y)\<rparr>) a
         = configure_steps p e a"
proof -
  let ?e = "e\<lparr>setsockopt_result := (setsockopt_result e)(SO_REUSEPORT := y)\<rparr>"
  have opt: "step_setsockopt ?e opt = step_setsockopt e opt" if "opt \<noteq> SO_REUSEPORT" for opt
    using that by (intro ext) (simp add: step_setsockopt_def)
  have bind: "step_bind ?e target = step_bind e target" for target
    by (intro ext) (simp add: step_bind_def)
  have nb: "step_set_non_blocking ?e = step_set_non_blocking e"
    by (intro ext) (simp add: step_set_non_blocking_def)
  have ts: "aeron_udp_channel_transport_setup_media_rcv_timestamps p ?e =
            aeron_udp_channel_transport_setup_media_rcv_timestamps p e"
    by (intro ext)
       (simp add: aeron_udp_channel_transport_setup_media_rcv_timestamps_def opt
             split: sum.splits)
  from assms show ?thesis
    by (simp add: configure_steps_def multicast_steps_def opt bind nb ts)
qed

lemma init_ignores_absent_reuseaddr:
  assumes "\<not> defined_SO_REUSEADDR p"
  shows "aeron_udp_channel_transport_init p
           (e\<lparr>setsockopt_result := (setsockopt_result e)(SO_REUSEADDR := x)\<rparr>) a transport os
         = aeron_udp_channel_transport_init p e a transport os"
  using assms
  by (simp add: aeron_udp_channel_transport_init_def steps_ignore_absent_reuseaddr
        step_socket_def)

lemma init_ignores_absent_reuseport:
  assumes "\<not> defined_SO_REUSEPORT p"
  shows "aeron_udp_channel_transport_init p
           (e\<lparr>setsockopt_result := (setsockopt_result e)(SO_REUSEPORT := y)\<rparr>) a transport os
         = aeron_udp_channel_transport_init p e a transport os"
  using assms
  by (simp add: aeron_udp_channel_transport_init_def steps_ignore_absent_reuseport
        step_socket_def)

subsection \<open>Batches\<close>

lemma sendmsg_loop_run:
  assumes "n = j - i" and "i \<le> j" and "j \<le> len" and "len \<le> length msgvec"
    and "\<forall>k. i \<le> k \<and> k < j \<longrightarrow> 0 < sendmsg k"
    and "j < len \<longrightarrow> sendmsg j = 0"
  shows "\<exists>mv. sendmsg_loop sendmsg i len msgvec result =
           Some \<lparr>io_ret = result + int (j - i), io_bytes = 0, io_calls = [],
                 io_msgvec = mv, io_syscalls = (if j < len then Suc j else j)\<rparr>"
  using assms
proof (induction n arbitrary: i msgvec result)
  case 0
  then have ij: "i = j" by simp
  show ?case
  proof (cases "j < len")
    case True
    with 0 ij show ?thesis
      by (subst sendmsg_loop.simps) (simp add: Let_def)
  next
    case False
    with 0 ij show ?thesis
      by (subst sendmsg_loop.simps) simp
  qed
next
  case (Suc n)
  then have lt: "i < j" and pos: "0 < sendmsg i" by auto
  with Suc.prems have inr: "i < len" "i < length msgvec" by auto
  let ?mv = "msgvec[i := (msgvec ! i)\<lparr>msg_len := word_of_int (sendmsg i)\<rparr>]"
  have "\<exists>mv. sendmsg_loop sendmsg (Suc i) len ?mv (result + 1) =
           Some \<lparr>io_ret = (result + 1) + int (j - Suc i), io_bytes = 0, io_calls = [],
                 io_msgvec = mv, io_syscalls = (if j < len then Suc j else j)\<rparr>"
    using Suc.prems lt by (intro Suc.IH) auto
  moreover have "sendmsg_loop sendmsg i len msgvec result =
                 sendmsg_loop sendmsg (Suc i) len ?mv (result + 1)"
    using inr pos by (subst sendmsg_loop.simps) (simp add: Let_def)
  moreover have "(result + 1) + int (j - Suc i) = result + int (j - i)"
    using lt by simp
  ultimately show ?case by simp
qed

lemma recvmsg_loop_timestamps:
  assumes "recvmsg_loop transport clientd rcv i len msgvec b cs w = Some r"
    and "\<forall>c \<in> set cs. rc_media_rcv_timestamp c = Timestamp_null"
  shows "\<forall>c \<in> set (io_calls r). rc_media_rcv_timestamp c = Timestamp_null"
  using assms
proof (induction transport clientd rcv i len msgvec b cs w rule: recvmsg_loop.induct)
  case (1 transport clientd rcv i len msgvec b cs w)
  show ?case
  proof (cases "i < len \<and> i < length msgvec \<and> 0 < rcv i")
    case True
    let ?m = "(msgvec ! i)\<lparr>msg_len := word_of_int (rcv i)\<rparr>"
    from True "1.prems"(1)
    have run: "recvmsg_loop transport clientd rcv (Suc i) len (msgvec[i := ?m])
                 (b + ucast (msg_len ?m))
                 (cs @ [recv_func_call transport clientd ?m Timestamp_null]) (w + 1) = Some r"
      by (subst (asm) recvmsg_loop.simps) (simp add: Let_def)
    have cs: "\<forall>c \<in> set (cs @ [recv_func_call transport clientd ?m Timestamp_null]).
                rc_media_rcv_timestamp c = Timestamp_null"
      using "1.prems"(2) by (simp add: recv_func_call_def)
    from True have "i < len" "i < length msgvec" "\<not> rcv i < 0" "0 \<noteq> rcv i" by auto
    from "1.IH" [OF this(1,2) refl this(3,4) refl run cs] show ?thesis .
  next
    case False
    with "1.prems" show ?thesis
      by (subst (asm) recvmsg_loop.simps) (auto simp: Let_def split: if_splits)
  qed
qed

lemma calls_fields:
  assumes "map without_timestamp cs =
           map (\<lambda>k. recv_func_call transport clientd (f k) Timestamp_null) [0..<n]"
  shows "length cs = n \<and>
         (\<forall>k<n. rc_buffer (cs ! k) = iov_base (f k) \<and>
                 rc_length (cs ! k) = unat (msg_len (f k)) \<and>
                 rc_addr (cs ! k) = msg_name (f k))"
proof -
  from assms have "length (map without_timestamp cs) = n"
    by simp
  then have len: "length cs = n" by simp
  have "rc_buffer (cs ! k) = iov_base (f k) \<and>
        rc_length (cs ! k) = unat (msg_len (f k)) \<and>
        rc_addr (cs ! k) = msg_name (f k)" if "k < n" for k
  proof -
    from that len have "without_timestamp (cs ! k) = map without_timestamp cs ! k"
      by simp
    also from that have "\<dots> = recv_func_call transport clientd (f k) Timestamp_null"
      by (simp add: assms)
    finally have "without_timestamp (cs ! k) =
                  recv_func_call transport clientd (f k) Timestamp_null" .
    then have "rc_buffer (without_timestamp (cs ! k)) = iov_base (f k)"
      "rc_length (without_timestamp (cs ! k)) = unat (msg_len (f k))"
      "rc_addr (without_timestamp (cs ! k)) = msg_name (f k)"
      by (simp_all add: recv_func_call_def)
    then show ?thesis
      by (simp add: without_timestamp_def)
  qed
  with len show ?thesis by blast
qed

lemma recvmmsg_vectorized_batch:
  assumes prep: "prepare_control p transport vlen msgvec = Some mv"
    and sys: "sys (fd transport) mv vlen = (K, err, mv')"
    and pos: "0 < K" and fits: "nat K \<le> length mv'"
  shows "\<exists>r. recvmmsg_vectorized p sys transport msgvec vlen bytes clientd = Some r \<and>
           io_ret r = K \<and> length (io_calls r) = nat K \<and>
           (\<forall>k < nat K. rc_buffer (io_calls r ! k) = iov_base (mv' ! k) \<and>
                         rc_length (io_calls r ! k) = unat (msg_len (mv' ! k)) \<and>
                         rc_addr (io_calls r ! k) = msg_name (mv' ! k)) \<and>
           io_bytes r = bytes + sum_list (map (\<lambda>k. ucast (msg_len (mv' ! k))) [0..<nat K])"
proof -
  from recvmmsg_dispatch_run [OF fits, of p transport clientd 0 Timestamp_null bytes "[]"]
  obtain cs where run:
    "recvmmsg_dispatch p transport clientd mv' 0 (nat K) Timestamp_null bytes [] =
       Some (bytes + sum_list (map (\<lambda>k. ucast (msg_len (mv' ! k))) [0..<nat K]), cs)"
    and cs: "map without_timestamp cs =
             map (\<lambda>k. recv_func_call transport clientd (mv' ! k) Timestamp_null) [0..<nat K]"
    by auto
  from prep sys pos run
  have "recvmmsg_vectorized p sys transport msgvec vlen bytes clientd =
          Some \<lparr>io_ret = K,
                io_bytes = bytes + sum_list (map (\<lambda>k. ucast (msg_len (mv' ! k))) [0..<nat K]),
                io_calls = cs, io_msgvec = mv', io_syscalls = 1\<rparr>"
    by (simp add: recvmmsg_vectorized_def)
  with calls_fields [OF cs] show ?thesis by simp
qed

lemma recvmsg_loop_batch:
  assumes "j \<le> vlen" and "vlen \<le> length msgvec"
    and "\<forall>k<j. 0 < rcv k" and "j < vlen \<longrightarrow> rcv j = 0"
  shows "\<exists>r. recvmsg_loop transport clientd rcv 0 vlen msgvec bytes [] 0 = Some r \<and>
           io_ret r = int j \<and> io_syscalls r = (if j < vlen then Suc j else j) \<and>
           length (io_calls r) = j \<and>
           (\<forall>k<j. rc_buffer (io_calls r ! k) = iov_base (msgvec ! k) \<and>
                   rc_length (io_calls r ! k) = unat (word_of_int (rcv k) :: 32 word) \<and>
                   rc_addr (io_calls r ! k) = msg_name (msgvec ! k)) \<and>
           io_bytes r = bytes + sum_list (map (\<lambda>k. ucast (word_of_int (rcv k) :: 32 word)) [0..<j])"
proof -
  from assms
  have "\<exists>mv. recvmsg_loop transport clientd rcv 0 vlen msgvec bytes [] 0 =
           Some \<lparr>io_ret = 0 + int (j - 0),
                 io_bytes = bytes + sum_list (map (\<lambda>k. ucast (msg_len (received_slot msgvec rcv k))) [0..<j]),
                 io_calls = [] @ map (\<lambda>k. recv_func_call transport clientd
                                             (received_slot msgvec rcv k) Timestamp_null) [0..<j],
                 io_msgvec = mv,
                 io_syscalls = (if j < vlen then Suc j else j)\<rparr>"
    by (intro recvmsg_loop_run [where n = j]) auto
  then obtain r where r: "recvmsg_loop transport clientd rcv 0 vlen msgvec bytes [] 0 = Some r"
    and ret: "io_ret r = int j" and sc: "io_syscalls r = (if j < vlen then Suc j else j)"
    and bytes: "io_bytes r =
                  bytes + sum_list (map (\<lambda>k. ucast (msg_len (received_slot msgvec rcv k))) [0..<j])"
    and calls: "io_calls r = map (\<lambda>k. recv_func_call transport clientd
                                         (received_slot msgvec rcv k) Timestamp_null) [0..<j]"
    by auto
  have "map without_timestamp (io_calls r) =
        map (\<lambda>k. recv_func_call transport clientd (received_slot msgvec rcv k) Timestamp_null)
          [0..<j]"
    by (simp add: calls)
  from calls_fields [OF this] r ret sc bytes show ?thesis
    by (simp add: received_slot_def)
qed

subsection \<open>Unfolding the model on concrete inputs\<close>

lemmas init_eval =
  aeron_udp_channel_transport_init_def step_socket_def configure_steps_def multicast_steps_def
  step_bind_def step_setsockopt_def step_set_non_blocking_def
  aeron_udp_channel_transport_setup_media_rcv_timestamps_def
  reset_handle_def aeron_close_socket_def os_log_def Let_def
  linux_build_def all_succeed_def unicast_args_def multicast_args_def stale_handle_def
  os_with_def
  AERON_UDP_CHANNEL_TRANSPORT_MEDIA_RCV_TIMESTAMP_def
  AERON_UDP_CHANNEL_TRANSPORT_MEDIA_RCV_TIMESTAMP_NONE_def

lemmas io_eval =
  aeron_udp_channel_transport_recvmmsg_def recvmmsg_vectorized_def prepare_control_def
  attach_control.simps recvmmsg_dispatch.simps recvmsg_loop.simps sendmsg_loop.simps
  aeron_udp_channel_transport_sendmmsg_def next_media_rcv_timestamp_def recv_func_call_def
  aeron_recvmsg_def int_of_size_t_def linux_build_def scalar_build_def bound_handle_def
  empty_slot_def
  two_datagrams_one_timestamp_def no_datagram_def no_send_def Let_def
  AERON_UDP_CHANNEL_TRANSPORT_MEDIA_RCV_TIMESTAMP_def

section \<open>The claims\<close>

text \<open>
  Claim C1 (vectorized receive: a datagram's timestamp comes from its own ancillary data
  only). The code does not keep this. \<^verbatim>\<open>media_rcv_timestamp\<close> is declared before the
  dispatch loop and assigned only when a slot's first control header matches, so a slot
  without a matching header is dispatched with the pointer left by an earlier slot. Here
  the kernel delivers two datagrams, the first with a \<^verbatim>\<open>SOL_SOCKET\<close> /
  \<^verbatim>\<open>SCM_TIMESTAMPNS\<close> header of the expected length and the second with no control
  header: both invocations of the callback receive \<^verbatim>\<open>CMSG_DATA\<close> of slot 0.
\<close>

theorem recvmmsg_reuses_earlier_timestamp:
  "map_option (\<lambda>r. (io_ret r, map rc_media_rcv_timestamp (io_calls r),
                     map cmsg_firsthdr (io_msgvec r)))
     (aeron_udp_channel_transport_recvmmsg linux_build two_datagrams_one_timestamp (\<lambda>k. 0)
        (bound_handle 5 AERON_UDP_CHANNEL_TRANSPORT_MEDIA_RCV_TIMESTAMP)
        [empty_slot 0, empty_slot 1] 2 0 (Ptr 9))
   = Some (2, [CMSG_DATA 0, CMSG_DATA 0],
           [Some \<lparr>cmsg_level = 1, cmsg_type = 35, cmsg_len = 32,
                  cmsg_data = \<lparr>tv_sec = 1700000000, tv_nsec = 5\<rparr>\<rparr>, None])"
  by (simp add: io_eval)

text \<open>
  Claim C2 (close is idempotent: closing an already closed handle is a no-op and never
  releases a socket twice). The code does not keep this. Both calls return 0, but close
  leaves the descriptor in the handle, so the second call passes the test against \<open>- 1\<close>
  and calls \<^verbatim>\<open>aeron_close_socket\<close> on descriptor 5 again. In the second half another
  handle is initialised between the two calls and the operating system hands out
  descriptor 5 again: the second close of the first handle releases the socket of the
  other handle.
\<close>

theorem close_twice_closes_descriptor_twice:
  "(case aeron_udp_channel_transport_close (bound_handle 5 0) (os_with {5}) of
      (r1, t1, os1) \<Rightarrow>
        (case aeron_udp_channel_transport_close t1 os1 of
           (r2, t2, os2) \<Rightarrow>
             r1 = 0 \<and> r2 = 0 \<and> fd t1 = 5 \<and>
             calls os1 = [Sys_close_socket 5] \<and>
             calls os2 = [Sys_close_socket 5, Sys_close_socket 5])) \<and>
   (case aeron_udp_channel_transport_close (bound_handle 5 0) (os_with {5}) of
      (r1, t1, os1) \<Rightarrow>
        (case aeron_udp_channel_transport_close t1
                (ir_os (aeron_udp_channel_transport_init linux_build (all_succeed 5)
                          unicast_args stale_handle os1)) of
           (r2, t2, os2) \<Rightarrow>
             open_fds os1 = {} \<and>
             fd (ir_transport (aeron_udp_channel_transport_init linux_build (all_succeed 5)
                                 unicast_args stale_handle os1)) = 5 \<and>
             open_fds (ir_os (aeron_udp_channel_transport_init linux_build (all_succeed 5)
                                unicast_args stale_handle os1)) = {5} \<and>
             open_fds os2 = {}))"
  by (simp add: close_result aeron_close_socket_def os_log_def bound_handle_def os_with_def
        aeron_udp_channel_transport_init_def step_socket_def configure_steps_def
        step_bind_def step_setsockopt_def step_set_non_blocking_def
        aeron_udp_channel_transport_setup_media_rcv_timestamps_def
        reset_handle_def linux_build_def all_succeed_def unicast_args_def stale_handle_def
        Let_def)

text \<open>
  Claim C3, as amended. In the multicast branch of init each of the two reuse options,
  \<^verbatim>\<open>SO_REUSEADDR\<close> and \<^verbatim>\<open>SO_REUSEPORT\<close>, is set only where the platform defines it, each
  under its own guard. Where an option is defined and setting it fails, init fails: it
  returns \<open>- 1\<close> with the failed option recorded, the descriptor of the handle is \<open>- 1\<close>
  and the socket is closed. Where an option is not defined, whatever the other is, init
  issues no call that sets it, and what the operating system would have answered for it
  has no influence on the result.
\<close>

theorem init_reuse_failure_is_fatal:
  "(addr_is_multicast a \<and> 0 \<le> socket_result e \<and>
    ((defined_SO_REUSEADDR p \<and> setsockopt_result e SO_REUSEADDR < 0) \<or>
     (defined_SO_REUSEPORT p \<and> setsockopt_result e SO_REUSEPORT < 0)) \<longrightarrow>
      ir_ret (aeron_udp_channel_transport_init p e a transport os) = - 1 \<and>
      fd (ir_transport (aeron_udp_channel_transport_init p e a transport os)) = - 1 \<and>
      socket_result e \<notin> open_fds (ir_os (aeron_udp_channel_transport_init p e a transport os)) \<and>
      (ir_failed (aeron_udp_channel_transport_init p e a transport os)
         = Some (Sys_setsockopt (socket_result e) SO_REUSEADDR) \<or>
       ir_failed (aeron_udp_channel_transport_init p e a transport os)
         = Some (Sys_setsockopt (socket_result e) SO_REUSEPORT))) \<and>
   (\<not> defined_SO_REUSEADDR p \<longrightarrow>
      aeron_udp_channel_transport_init p
        (e\<lparr>setsockopt_result := (setsockopt_result e)(SO_REUSEADDR := x)\<rparr>) a transport os
      = aeron_udp_channel_transport_init p e a transport os \<and>
      (\<forall>d. Sys_setsockopt d SO_REUSEADDR
              \<in> set (calls (ir_os (aeron_udp_channel_transport_init p e a transport os))) \<longrightarrow>
           Sys_setsockopt d SO_REUSEADDR \<in> set (calls os))) \<and>
   (\<not> defined_SO_REUSEPORT p \<longrightarrow>
      aeron_udp_channel_transport_init p
        (e\<lparr>setsockopt_result := (setsockopt_result e)(SO_REUSEPORT := y)\<rparr>) a transport os
      = aeron_udp_channel_transport_init p e a transport os \<and>
      (\<forall>d. Sys_setsockopt d SO_REUSEPORT
              \<in> set (calls (ir_os (aeron_udp_channel_transport_init p e a transport os))) \<longrightarrow>
           Sys_setsockopt d SO_REUSEPORT \<in> set (calls os)))"
proof (intro conjI impI allI)
  assume h: "addr_is_multicast a \<and> 0 \<le> socket_result e \<and>
    ((defined_SO_REUSEADDR p \<and> setsockopt_result e SO_REUSEADDR < 0) \<or>
     (defined_SO_REUSEPORT p \<and> setsockopt_result e SO_REUSEPORT < 0))"
  then have ok: "0 \<le> socket_result e" by simp
  let ?t1 = "(reset_handle p transport)\<lparr>fd := socket_result e\<rparr>"
  from h reuse_steps_fail [of a p e ?t1 "socket_created e a os"]
  obtain opt os' where opt: "opt = SO_REUSEADDR \<or> opt = SO_REUSEPORT"
    and run: "run_steps (configure_steps p e a) (?t1, socket_created e a os) =
                Inl (Sys_setsockopt (socket_result e) opt, ?t1, os')"
    by auto
  have init: "aeron_udp_channel_transport_init p e a transport os =
          \<lparr>ir_ret = - 1, ir_failed = Some (Sys_setsockopt (socket_result e) opt),
           ir_transport = ?t1\<lparr>fd := - 1\<rparr>,
           ir_os = (if - 1 \<noteq> socket_result e
                    then aeron_close_socket (socket_result e) os' else os')\<rparr>"
    using ok run by (simp add: init_socket_ok)
  show "ir_ret (aeron_udp_channel_transport_init p e a transport os) = - 1"
    by (simp add: init)
  show "fd (ir_transport (aeron_udp_channel_transport_init p e a transport os)) = - 1"
    by (simp add: init)
  show "socket_result e \<notin> open_fds (ir_os (aeron_udp_channel_transport_init p e a transport os))"
    using ok by (simp add: init aeron_close_socket_def os_log_def)
  show "ir_failed (aeron_udp_channel_transport_init p e a transport os)
         = Some (Sys_setsockopt (socket_result e) SO_REUSEADDR) \<or>
       ir_failed (aeron_udp_channel_transport_init p e a transport os)
         = Some (Sys_setsockopt (socket_result e) SO_REUSEPORT)"
    using opt by (auto simp: init)
next
  assume "\<not> defined_SO_REUSEADDR p"
  then show "aeron_udp_channel_transport_init p
        (e\<lparr>setsockopt_result := (setsockopt_result e)(SO_REUSEADDR := x)\<rparr>) a transport os
      = aeron_udp_channel_transport_init p e a transport os"
    by (rule init_ignores_absent_reuseaddr)
next
  fix d
  assume absent: "\<not> defined_SO_REUSEADDR p"
    and logged: "Sys_setsockopt d SO_REUSEADDR
              \<in> set (calls (ir_os (aeron_udp_channel_transport_init p e a transport os)))"
  from absent have "\<forall>f \<in> set (step_socket e a # configure_steps p e a).
                      leaves_option_alone SO_REUSEADDR f"
    by (blast intro: alone_reuseaddr)
  from init_never_sets [OF this logged] show "Sys_setsockopt d SO_REUSEADDR \<in> set (calls os)" .
next
  assume "\<not> defined_SO_REUSEPORT p"
  then show "aeron_udp_channel_transport_init p
        (e\<lparr>setsockopt_result := (setsockopt_result e)(SO_REUSEPORT := y)\<rparr>) a transport os
      = aeron_udp_channel_transport_init p e a transport os"
    by (rule init_ignores_absent_reuseport)
next
  fix d
  assume absent: "\<not> defined_SO_REUSEPORT p"
    and logged: "Sys_setsockopt d SO_REUSEPORT
              \<in> set (calls (ir_os (aeron_udp_channel_transport_init p e a transport os)))"
  from absent have "\<forall>f \<in> set (step_socket e a # configure_steps p e a).
                      leaves_option_alone SO_REUSEPORT f"
    by (blast intro: alone_reuseport)
  from init_never_sets [OF this logged] show "Sys_setsockopt d SO_REUSEPORT \<in> set (calls os)" .
qed

theorem init_reuse_failure_is_fatal_witness:
  "ir_ret (aeron_udp_channel_transport_init linux_build
             ((all_succeed 7)\<lparr>setsockopt_result := (\<lambda>opt. if opt = SO_REUSEPORT then - 1 else 0)\<rparr>)
             multicast_args stale_handle (os_with {})) = - 1 \<and>
   ir_failed (aeron_udp_channel_transport_init linux_build
             ((all_succeed 7)\<lparr>setsockopt_result := (\<lambda>opt. if opt = SO_REUSEPORT then - 1 else 0)\<rparr>)
             multicast_args stale_handle (os_with {})) = Some (Sys_setsockopt 7 SO_REUSEPORT) \<and>
   ir_ret (aeron_udp_channel_transport_init (linux_build\<lparr>defined_SO_REUSEPORT := False\<rparr>)
             ((all_succeed 7)\<lparr>setsockopt_result :=
                 (setsockopt_result (all_succeed 7))(SO_REUSEPORT := - 1)\<rparr>)
             multicast_args stale_handle (os_with {})) = 0 \<and>
   Sys_setsockopt 7 SO_REUSEPORT
     \<notin> set (calls (ir_os (aeron_udp_channel_transport_init
                             (linux_build\<lparr>defined_SO_REUSEPORT := False\<rparr>) (all_succeed 7)
                             multicast_args stale_handle (os_with {})))) \<and>
   Sys_setsockopt 7 SO_REUSEADDR
     \<in> set (calls (ir_os (aeron_udp_channel_transport_init
                             (linux_build\<lparr>defined_SO_REUSEPORT := False\<rparr>) (all_succeed 7)
                             multicast_args stale_handle (os_with {})))) \<and>
   ir_ret (aeron_udp_channel_transport_init (linux_build\<lparr>defined_SO_REUSEADDR := False\<rparr>)
             ((all_succeed 7)\<lparr>setsockopt_result :=
                 (setsockopt_result (all_succeed 7))(SO_REUSEADDR := - 1)\<rparr>)
             multicast_args stale_handle (os_with {})) = 0 \<and>
   Sys_setsockopt 7 SO_REUSEADDR
     \<notin> set (calls (ir_os (aeron_udp_channel_transport_init
                             (linux_build\<lparr>defined_SO_REUSEADDR := False\<rparr>) (all_succeed 7)
                             multicast_args stale_handle (os_with {}))))"
  using init_reuse_failure_is_fatal
          [of multicast_args
              "(all_succeed 7)\<lparr>setsockopt_result := (\<lambda>opt. if opt = SO_REUSEPORT then - 1 else 0)\<rparr>"
              linux_build stale_handle "os_with {}"]
        init_reuse_failure_is_fatal
          [of multicast_args "all_succeed 7" "linux_build\<lparr>defined_SO_REUSEPORT := False\<rparr>"
              stale_handle "os_with {}" "- 1" "- 1"]
        init_reuse_failure_is_fatal
          [of multicast_args "all_succeed 7" "linux_build\<lparr>defined_SO_REUSEADDR := False\<rparr>"
              stale_handle "os_with {}" "- 1" "- 1"]
  by (simp add: init_eval)

text \<open>
  Claim C3 as stated (a failure to set a reuse option does not make init fail) is false:
  with every other call succeeding, init returns 0 when \<^verbatim>\<open>SO_REUSEADDR\<close> can be set and
  \<open>- 1\<close> when it cannot.
\<close>

theorem init_reuse_failure_fails_init:
  "ir_ret (aeron_udp_channel_transport_init linux_build (all_succeed 7)
             multicast_args stale_handle (os_with {})) = 0 \<and>
   ir_ret (aeron_udp_channel_transport_init linux_build
             ((all_succeed 7)\<lparr>setsockopt_result := (\<lambda>opt. if opt = SO_REUSEADDR then - 1 else 0)\<rparr>)
             multicast_args stale_handle (os_with {})) = - 1 \<and>
   ir_failed (aeron_udp_channel_transport_init linux_build
             ((all_succeed 7)\<lparr>setsockopt_result := (\<lambda>opt. if opt = SO_REUSEADDR then - 1 else 0)\<rparr>)
             multicast_args stale_handle (os_with {})) = Some (Sys_setsockopt 7 SO_REUSEADDR)"
  by (simp add: init_eval)

text \<open>
  Claim C4, as amended. Whenever init does not return 0, whatever step failed, it returns
  \<open>- 1\<close>, the descriptor of the handle is \<open>- 1\<close>, the set of open sockets is what it was
  before the call (the descriptor handed out by \<^verbatim>\<open>aeron_socket\<close>, if any, is closed by
  the last call init issues), the bindings reference and every interceptor slot hold
  their reset value, and the references init never writes are untouched. The timestamp
  flag is at its reset value too, with one exception: when timestamping was requested on
  a platform that has it and the step that failed is the switch to non-blocking mode, the
  flag holds the media-receive value. The descriptor the operating system hands out is
  one that was not open before the call.
\<close>

theorem init_failure_releases_socket:
  assumes "socket_result e \<notin> open_fds os"
    and "ir_ret (aeron_udp_channel_transport_init p e a transport os) \<noteq> 0"
  shows "ir_ret (aeron_udp_channel_transport_init p e a transport os) = - 1 \<and>
         fd (ir_transport (aeron_udp_channel_transport_init p e a transport os)) = - 1 \<and>
         open_fds (ir_os (aeron_udp_channel_transport_init p e a transport os)) = open_fds os \<and>
         (0 \<le> socket_result e \<longrightarrow>
            last (calls (ir_os (aeron_udp_channel_transport_init p e a transport os)))
              = Sys_close_socket (socket_result e)) \<and>
         bindings_clientd (ir_transport (aeron_udp_channel_transport_init p e a transport os))
           = NULL \<and>
         (\<forall>i < AERON_UDP_CHANNEL_TRANSPORT_MAX_INTERCEPTORS p.
            interceptor_clientds
              (ir_transport (aeron_udp_channel_transport_init p e a transport os)) i = NULL) \<and>
         timestamp_flags (ir_transport (aeron_udp_channel_transport_init p e a transport os)) =
           (if ir_failed (aeron_udp_channel_transport_init p e a transport os)
                 = Some (Sys_set_non_blocking (socket_result e)) \<and>
               is_media_timestamping a \<and> defined_HAS_MEDIA_RCV_TIMESTAMPS p
            then AERON_UDP_CHANNEL_TRANSPORT_MEDIA_RCV_TIMESTAMP
            else AERON_UDP_CHANNEL_TRANSPORT_MEDIA_RCV_TIMESTAMP_NONE) \<and>
         data_paths (ir_transport (aeron_udp_channel_transport_init p e a transport os))
           = data_paths transport \<and>
         dispatch_clientd (ir_transport (aeron_udp_channel_transport_init p e a transport os))
           = dispatch_clientd transport \<and>
         destination_clientd (ir_transport (aeron_udp_channel_transport_init p e a transport os))
           = destination_clientd transport"
proof -
  have "\<forall>i < AERON_UDP_CHANNEL_TRANSPORT_MAX_INTERCEPTORS p.
          interceptor_clientds
            (ir_transport (aeron_udp_channel_transport_init p e a transport os)) i = NULL"
    by (simp add: init_slots_reset clear_interceptor_clientds_apply)
  with init_failure_cleanup_aux [OF assms] init_slots_reset [of p e a transport os]
    init_failure_handle [OF assms(2)]
  show ?thesis by blast
qed

theorem init_failure_releases_socket_witness:
  "ir_ret (aeron_udp_channel_transport_init linux_build
             ((all_succeed 7)\<lparr>set_non_blocking_result := - 1\<rparr>) multicast_args stale_handle
             (os_with {3})) = - 1 \<and>
   fd (ir_transport (aeron_udp_channel_transport_init linux_build
             ((all_succeed 7)\<lparr>set_non_blocking_result := - 1\<rparr>) multicast_args stale_handle
             (os_with {3}))) = - 1 \<and>
   open_fds (ir_os (aeron_udp_channel_transport_init linux_build
             ((all_succeed 7)\<lparr>set_non_blocking_result := - 1\<rparr>) multicast_args stale_handle
             (os_with {3}))) = {3} \<and>
   last (calls (ir_os (aeron_udp_channel_transport_init linux_build
             ((all_succeed 7)\<lparr>set_non_blocking_result := - 1\<rparr>) multicast_args stale_handle
             (os_with {3})))) = Sys_close_socket 7 \<and>
   interceptor_clientds (ir_transport (aeron_udp_channel_transport_init linux_build
             ((all_succeed 7)\<lparr>set_non_blocking_result := - 1\<rparr>) multicast_args stale_handle
             (os_with {3}))) 1 = NULL \<and>
   timestamp_flags (ir_transport (aeron_udp_channel_transport_init linux_build
             ((all_succeed 7)\<lparr>set_non_blocking_result := - 1\<rparr>) multicast_args stale_handle
             (os_with {3}))) = AERON_UDP_CHANNEL_TRANSPORT_MEDIA_RCV_TIMESTAMP_NONE \<and>
   data_paths (ir_transport (aeron_udp_channel_transport_init linux_build
             ((all_succeed 7)\<lparr>set_non_blocking_result := - 1\<rparr>) multicast_args stale_handle
             (os_with {3}))) = Ptr 1 \<and>
   ir_ret (aeron_udp_channel_transport_init linux_build (all_succeed (- 1)) unicast_args
             stale_handle (os_with {3})) = - 1 \<and>
   fd (ir_transport (aeron_udp_channel_transport_init linux_build (all_succeed (- 1))
             unicast_args stale_handle (os_with {3}))) = - 1 \<and>
   open_fds (ir_os (aeron_udp_channel_transport_init linux_build (all_succeed (- 1))
             unicast_args stale_handle (os_with {3}))) = {3} \<and>
   timestamp_flags (ir_transport (aeron_udp_channel_transport_init linux_build
             (all_succeed (- 1)) unicast_args stale_handle (os_with {3})))
     = AERON_UDP_CHANNEL_TRANSPORT_MEDIA_RCV_TIMESTAMP_NONE \<and>
   timestamp_flags (ir_transport (aeron_udp_channel_transport_init linux_build
             ((all_succeed 7)\<lparr>bind_result := - 1\<rparr>) unicast_args stale_handle (os_with {3})))
     = AERON_UDP_CHANNEL_TRANSPORT_MEDIA_RCV_TIMESTAMP_NONE \<and>
   timestamp_flags (ir_transport (aeron_udp_channel_transport_init linux_build
             ((all_succeed 7)\<lparr>set_non_blocking_result := - 1\<rparr>) unicast_args stale_handle
             (os_with {3}))) = AERON_UDP_CHANNEL_TRANSPORT_MEDIA_RCV_TIMESTAMP \<and>
   timestamp_flags stale_handle \<noteq> AERON_UDP_CHANNEL_TRANSPORT_MEDIA_RCV_TIMESTAMP_NONE"
proof -
  have fresh: "socket_result ((all_succeed 7)\<lparr>set_non_blocking_result := - 1\<rparr>)
                 \<notin> open_fds (os_with {3})"
       "socket_result (all_succeed (- 1)) \<notin> open_fds (os_with {3})"
       "socket_result ((all_succeed 7)\<lparr>bind_result := - 1\<rparr>) \<notin> open_fds (os_with {3})"
    by (simp_all add: all_succeed_def os_with_def)
  have fails:
    "ir_ret (aeron_udp_channel_transport_init linux_build
       ((all_succeed 7)\<lparr>set_non_blocking_result := - 1\<rparr>) multicast_args
       stale_handle (os_with {3})) \<noteq> 0"
    "ir_ret (aeron_udp_channel_transport_init linux_build (all_succeed (- 1))
       unicast_args stale_handle (os_with {3})) \<noteq> 0"
    "ir_ret (aeron_udp_channel_transport_init linux_build
       ((all_succeed 7)\<lparr>bind_result := - 1\<rparr>) unicast_args stale_handle (os_with {3})) \<noteq> 0"
    "ir_ret (aeron_udp_channel_transport_init linux_build
       ((all_succeed 7)\<lparr>set_non_blocking_result := - 1\<rparr>) unicast_args
       stale_handle (os_with {3})) \<noteq> 0"
    by (simp_all add: init_eval)
  have failed:
    "ir_failed (aeron_udp_channel_transport_init linux_build
       ((all_succeed 7)\<lparr>set_non_blocking_result := - 1\<rparr>) multicast_args
       stale_handle (os_with {3})) = Some (Sys_set_non_blocking 7)"
    "ir_failed (aeron_udp_channel_transport_init linux_build (all_succeed (- 1))
       unicast_args stale_handle (os_with {3})) = Some (Sys_socket 2)"
    "ir_failed (aeron_udp_channel_transport_init linux_build
       ((all_succeed 7)\<lparr>bind_result := - 1\<rparr>) unicast_args stale_handle (os_with {3}))
       = Some (Sys_bind 7 Bind_addr)"
    "ir_failed (aeron_udp_channel_transport_init linux_build
       ((all_succeed 7)\<lparr>set_non_blocking_result := - 1\<rparr>) unicast_args
       stale_handle (os_with {3})) = Some (Sys_set_non_blocking 7)"
    by (simp_all add: init_eval)
  have vals:
    "\<And>d. socket_result (all_succeed d) = d"
    "\<And>S. open_fds (os_with S) = S"
    "is_media_timestamping multicast_args = False"
    "is_media_timestamping unicast_args = True"
    "defined_HAS_MEDIA_RCV_TIMESTAMPS linux_build = True"
    "AERON_UDP_CHANNEL_TRANSPORT_MAX_INTERCEPTORS linux_build = 2"
    "data_paths stale_handle = Ptr 1"
    "timestamp_flags stale_handle = 1"
    "AERON_UDP_CHANNEL_TRANSPORT_MEDIA_RCV_TIMESTAMP_NONE = 0"
    by (simp_all add: all_succeed_def os_with_def multicast_args_def unicast_args_def
          linux_build_def stale_handle_def
          AERON_UDP_CHANNEL_TRANSPORT_MEDIA_RCV_TIMESTAMP_NONE_def)
  from init_failure_releases_socket [OF fresh(1) fails(1)]
       init_failure_releases_socket [OF fresh(2) fails(2)]
       init_failure_releases_socket [OF fresh(3) fails(3)]
       init_failure_releases_socket [OF fresh(1) fails(4)]
  show ?thesis
    by (simp add: failed vals)
qed

text \<open>
  Claim C4 as stated (after a failure no partially initialised state is observable) is
  false for the timestamp flag: when timestamping is requested and the last step, the
  switch to non-blocking mode, fails, the handle is left unbound with the flag still at
  its media-receive value, not at the value init resets it to.
\<close>

theorem init_failure_keeps_timestamp_flag:
  "ir_ret (aeron_udp_channel_transport_init linux_build
             ((all_succeed 7)\<lparr>set_non_blocking_result := - 1\<rparr>) unicast_args stale_handle
             (os_with {})) = - 1 \<and>
   ir_failed (aeron_udp_channel_transport_init linux_build
             ((all_succeed 7)\<lparr>set_non_blocking_result := - 1\<rparr>) unicast_args stale_handle
             (os_with {})) = Some (Sys_set_non_blocking 7) \<and>
   timestamp_flags (ir_transport (aeron_udp_channel_transport_init linux_build
             ((all_succeed 7)\<lparr>set_non_blocking_result := - 1\<rparr>) unicast_args stale_handle
             (os_with {}))) = AERON_UDP_CHANNEL_TRANSPORT_MEDIA_RCV_TIMESTAMP \<and>
   timestamp_flags (reset_handle linux_build stale_handle)
     = AERON_UDP_CHANNEL_TRANSPORT_MEDIA_RCV_TIMESTAMP_NONE \<and>
   AERON_UDP_CHANNEL_TRANSPORT_MEDIA_RCV_TIMESTAMP
     \<noteq> AERON_UDP_CHANNEL_TRANSPORT_MEDIA_RCV_TIMESTAMP_NONE"
  by (simp add: init_eval)

text \<open>
  Claim C5, as amended. On the vectorized path, when \<^verbatim>\<open>recvmmsg\<close> fails with
  \<^verbatim>\<open>EINTR\<close> or \<^verbatim>\<open>EAGAIN\<close>, or returns 0, the function returns 0, invokes no
  callback and leaves the byte counter as it was. On the scalar path, with
  \<^verbatim>\<open>aeron_recvmsg\<close> surfacing \<^verbatim>\<open>EINTR\<close> and \<^verbatim>\<open>EAGAIN\<close> as zero progress, such a
  condition (or an empty receive) at slot \<open>j\<close>, after \<open>j\<close> datagrams, ends the batch
  without an error: the function returns \<open>j\<close>, which is 0 when nothing was pending.
\<close>

theorem recvmmsg_transient_is_no_error:
  "(defined_HAVE_RECVMMSG p \<and> prepare_control p transport vlen msgvec = Some mv \<and>
    sys (fd transport) mv vlen = (result, err, mv') \<and>
    ((result < 0 \<and> (err = EINTR \<or> err = EAGAIN)) \<or> result = 0) \<longrightarrow>
      (\<exists>r. aeron_udp_channel_transport_recvmmsg p sys rcv transport msgvec vlen bytes clientd
              = Some r \<and>
           io_ret r = 0 \<and> io_calls r = [] \<and> io_bytes r = bytes)) \<and>
   (\<not> defined_HAVE_RECVMMSG p \<and> j < vlen \<and> vlen \<le> length msgvec \<and>
    (\<forall>k<j. 0 < fst (raw k)) \<and>
    (fst (raw j) = 0 \<or> (fst (raw j) < 0 \<and> (snd (raw j) = EINTR \<or> snd (raw j) = EAGAIN))) \<longrightarrow>
      (\<exists>r. aeron_udp_channel_transport_recvmmsg p sys (\<lambda>k. aeron_recvmsg (raw k)) transport
              msgvec vlen bytes clientd = Some r \<and>
           io_ret r = int j \<and> length (io_calls r) = j \<and> io_syscalls r = Suc j))"
proof (intro conjI impI)
  assume "defined_HAVE_RECVMMSG p \<and> prepare_control p transport vlen msgvec = Some mv \<and>
    sys (fd transport) mv vlen = (result, err, mv') \<and>
    ((result < 0 \<and> (err = EINTR \<or> err = EAGAIN)) \<or> result = 0)"
  then show "\<exists>r. aeron_udp_channel_transport_recvmmsg p sys rcv transport msgvec vlen bytes clientd
              = Some r \<and>
           io_ret r = 0 \<and> io_calls r = [] \<and> io_bytes r = bytes"
    by (auto simp: aeron_udp_channel_transport_recvmmsg_def recvmmsg_vectorized_def)
next
  assume h: "\<not> defined_HAVE_RECVMMSG p \<and> j < vlen \<and> vlen \<le> length msgvec \<and>
    (\<forall>k<j. 0 < fst (raw k)) \<and>
    (fst (raw j) = 0 \<or> (fst (raw j) < 0 \<and> (snd (raw j) = EINTR \<or> snd (raw j) = EAGAIN)))"
  let ?rcv = "\<lambda>k. aeron_recvmsg (raw k)"
  from h have before: "\<forall>k<j. 0 < ?rcv k"
    by (auto simp: aeron_recvmsg_def split: prod.splits)
  from h have stop: "j < vlen \<longrightarrow> ?rcv j = 0"
    by (auto simp: aeron_recvmsg_def split: prod.splits)
  from h have path:
    "aeron_udp_channel_transport_recvmmsg p sys ?rcv transport msgvec vlen bytes clientd
       = recvmsg_loop transport clientd ?rcv 0 vlen msgvec bytes [] 0"
    by (simp add: aeron_udp_channel_transport_recvmmsg_def)
  from h have "j \<le> vlen" "vlen \<le> length msgvec" by simp_all
  from recvmsg_loop_batch [OF this before stop, of transport clientd bytes] h
  show "\<exists>r. aeron_udp_channel_transport_recvmmsg p sys ?rcv transport
              msgvec vlen bytes clientd = Some r \<and>
           io_ret r = int j \<and> length (io_calls r) = j \<and> io_syscalls r = Suc j"
    unfolding path by auto
qed

theorem recvmmsg_transient_is_no_error_witness:
  "(\<exists>r. aeron_udp_channel_transport_recvmmsg linux_build no_datagram (\<lambda>k. 0)
           (bound_handle 5 0) [empty_slot 0, empty_slot 1] 2 1000 (Ptr 9) = Some r \<and>
        io_ret r = 0 \<and> io_calls r = [] \<and> io_bytes r = 1000) \<and>
   (\<exists>r. aeron_udp_channel_transport_recvmmsg scalar_build no_datagram
           (\<lambda>k. aeron_recvmsg (- 1, EAGAIN))
           (bound_handle 5 0) [empty_slot 0, empty_slot 1] 2 1000 (Ptr 9) = Some r \<and>
        io_ret r = 0 \<and> length (io_calls r) = 0 \<and> io_syscalls r = 1) \<and>
   (\<exists>r. aeron_udp_channel_transport_recvmmsg scalar_build no_datagram
           (\<lambda>k. aeron_recvmsg (if k = 0 then (10, Errno_other 0) else (- 1, EINTR)))
           (bound_handle 5 0) [empty_slot 0, empty_slot 1, empty_slot 2] 3 1000 (Ptr 9) = Some r \<and>
        io_ret r = 1 \<and> length (io_calls r) = 1 \<and> io_syscalls r = 2)"
proof -
  have v: "defined_HAVE_RECVMMSG linux_build \<and>
           prepare_control linux_build (bound_handle 5 0) 2 [empty_slot 0, empty_slot 1]
             = Some [empty_slot 0, empty_slot 1] \<and>
           no_datagram (fd (bound_handle 5 0)) [empty_slot 0, empty_slot 1] 2
             = (- 1, EAGAIN, [empty_slot 0, empty_slot 1]) \<and>
           (((- 1::int) < 0 \<and> (EAGAIN = EINTR \<or> EAGAIN = EAGAIN)) \<or> (- 1::int) = 0)"
    by (simp add: linux_build_def prepare_control_def bound_handle_def no_datagram_def)
  have build: "\<not> defined_HAVE_RECVMMSG scalar_build"
    by (simp add: scalar_build_def linux_build_def)
  from recvmmsg_transient_is_no_error
         [where p = linux_build and transport = "bound_handle 5 0" and vlen = 2
            and msgvec = "[empty_slot 0, empty_slot 1]" and mv = "[empty_slot 0, empty_slot 1]"
            and sys = no_datagram and result = "- 1" and err = EAGAIN
            and mv' = "[empty_slot 0, empty_slot 1]" and rcv = "\<lambda>k. 0" and bytes = 1000
            and clientd = "Ptr 9", THEN conjunct1, rule_format, OF v]
  have 1: "\<exists>r. aeron_udp_channel_transport_recvmmsg linux_build no_datagram (\<lambda>k. 0)
           (bound_handle 5 0) [empty_slot 0, empty_slot 1] 2 1000 (Ptr 9) = Some r \<and>
        io_ret r = 0 \<and> io_calls r = [] \<and> io_bytes r = 1000" .
  from recvmmsg_transient_is_no_error
         [where p = scalar_build and transport = "bound_handle 5 0" and vlen = 2
            and msgvec = "[empty_slot 0, empty_slot 1]" and j = 0
            and raw = "\<lambda>k. (- 1, EAGAIN)" and sys = no_datagram and bytes = 1000
            and clientd = "Ptr 9", THEN conjunct2]
  have 2: "\<exists>r. aeron_udp_channel_transport_recvmmsg scalar_build no_datagram
           (\<lambda>k. aeron_recvmsg (- 1, EAGAIN))
           (bound_handle 5 0) [empty_slot 0, empty_slot 1] 2 1000 (Ptr 9) = Some r \<and>
        io_ret r = 0 \<and> length (io_calls r) = 0 \<and> io_syscalls r = 1"
    by (simp add: build)
  from recvmmsg_transient_is_no_error
         [where p = scalar_build and transport = "bound_handle 5 0" and vlen = 3
            and msgvec = "[empty_slot 0, empty_slot 1, empty_slot 2]" and j = 1
            and raw = "\<lambda>k. if k = 0 then (10, Errno_other 0) else (- 1, EINTR)"
            and sys = no_datagram and bytes = 1000
            and clientd = "Ptr 9", THEN conjunct2]
  have 3: "\<exists>r. aeron_udp_channel_transport_recvmmsg scalar_build no_datagram
           (\<lambda>k. aeron_recvmsg (if k = 0 then (10, Errno_other 0) else (- 1, EINTR)))
           (bound_handle 5 0) [empty_slot 0, empty_slot 1, empty_slot 2] 3 1000 (Ptr 9) = Some r \<and>
        io_ret r = 1 \<and> length (io_calls r) = 1 \<and> io_syscalls r = 2"
    by (simp add: build numeral_2_eq_2)
  from 1 2 3 show ?thesis by blast
qed

text \<open>
  Claim C5 as stated (the function returns 0 whenever the receive call reports
  \<^verbatim>\<open>EAGAIN\<close>, on the scalar path too) is false: on the scalar path, with one datagram
  received and \<^verbatim>\<open>EAGAIN\<close> reported by the second of two receive calls, the function
  returns 1. (Were the wrapper to hand the failure on as a negative value, the loop would
  return \<open>- 1\<close>: the second half. The result is 0 in neither case.)
\<close>

theorem recvmmsg_scalar_transient_mid_batch:
  "map_option (\<lambda>r. (io_ret r, io_syscalls r, length (io_calls r)))
     (aeron_udp_channel_transport_recvmmsg scalar_build no_datagram
        (\<lambda>k. aeron_recvmsg (if k = 0 then (10, Errno_other 0) else (- 1, EAGAIN)))
        (bound_handle 5 0) [empty_slot 0, empty_slot 1] 2 0 (Ptr 9))
   = Some (1, 2, 1) \<and>
   map_option (\<lambda>r. (io_ret r, io_syscalls r, length (io_calls r)))
     (aeron_udp_channel_transport_recvmmsg scalar_build no_datagram
        (\<lambda>k. if k = 0 then 10 else - 1)
        (bound_handle 5 0) [empty_slot 0, empty_slot 1] 2 0 (Ptr 9))
   = Some (- 1, 2, 1)"
  by (simp add: io_eval)

text \<open>
  Claim C6 (a batch of \<open>K\<close> datagrams). On the vectorized path, when \<^verbatim>\<open>recvmmsg\<close>
  returns \<open>K > 0\<close> (no more than the message vector holds), and on the scalar path, when
  the first \<open>K\<close> receive calls return a positive length and the batch then ends (an empty
  receive, or the capacity reached), the function returns \<open>K\<close>, invokes the callback
  \<open>K\<close> times, invocation \<open>k\<close> with the payload buffer, the length and the address buffer
  of slot \<open>k\<close>, and adds the sum of the \<open>K\<close> lengths to the byte counter.
\<close>

theorem recvmmsg_delivers_batch:
  "(defined_HAVE_RECVMMSG p \<and> prepare_control p transport vlen msgvec = Some mv \<and>
    sys (fd transport) mv vlen = (K, err, mv') \<and> 0 < K \<and> nat K \<le> length mv' \<longrightarrow>
      (\<exists>r. aeron_udp_channel_transport_recvmmsg p sys rcv transport msgvec vlen bytes clientd
              = Some r \<and>
           io_ret r = K \<and> length (io_calls r) = nat K \<and>
           (\<forall>k < nat K. rc_buffer (io_calls r ! k) = iov_base (mv' ! k) \<and>
                         rc_length (io_calls r ! k) = unat (msg_len (mv' ! k)) \<and>
                         rc_addr (io_calls r ! k) = msg_name (mv' ! k)) \<and>
           io_bytes r = bytes + sum_list (map (\<lambda>k. ucast (msg_len (mv' ! k))) [0..<nat K]))) \<and>
   (\<not> defined_HAVE_RECVMMSG p \<and> j \<le> vlen \<and> vlen \<le> length msgvec \<and>
    (\<forall>k<j. 0 < rcv k) \<and> (j < vlen \<longrightarrow> rcv j = 0) \<longrightarrow>
      (\<exists>r. aeron_udp_channel_transport_recvmmsg p sys rcv transport msgvec vlen bytes clientd
              = Some r \<and>
           io_ret r = int j \<and> length (io_calls r) = j \<and>
           (\<forall>k<j. rc_buffer (io_calls r ! k) = iov_base (msgvec ! k) \<and>
                   rc_length (io_calls r ! k) = unat (word_of_int (rcv k) :: 32 word) \<and>
                   rc_addr (io_calls r ! k) = msg_name (msgvec ! k)) \<and>
           io_bytes r =
             bytes + sum_list (map (\<lambda>k. ucast (word_of_int (rcv k) :: 32 word)) [0..<j])))"
proof (intro conjI impI)
  assume h: "defined_HAVE_RECVMMSG p \<and> prepare_control p transport vlen msgvec = Some mv \<and>
    sys (fd transport) mv vlen = (K, err, mv') \<and> 0 < K \<and> nat K \<le> length mv'"
  then have "aeron_udp_channel_transport_recvmmsg p sys rcv transport msgvec vlen bytes clientd
             = recvmmsg_vectorized p sys transport msgvec vlen bytes clientd"
    by (simp add: aeron_udp_channel_transport_recvmmsg_def)
  with h recvmmsg_vectorized_batch [of p transport vlen msgvec mv sys K err mv' bytes clientd]
  show "\<exists>r. aeron_udp_channel_transport_recvmmsg p sys rcv transport msgvec vlen bytes clientd
              = Some r \<and>
           io_ret r = K \<and> length (io_calls r) = nat K \<and>
           (\<forall>k < nat K. rc_buffer (io_calls r ! k) = iov_base (mv' ! k) \<and>
                         rc_length (io_calls r ! k) = unat (msg_len (mv' ! k)) \<and>
                         rc_addr (io_calls r ! k) = msg_name (mv' ! k)) \<and>
           io_bytes r = bytes + sum_list (map (\<lambda>k. ucast (msg_len (mv' ! k))) [0..<nat K])"
    by simp
next
  assume h: "\<not> defined_HAVE_RECVMMSG p \<and> j \<le> vlen \<and> vlen \<le> length msgvec \<and>
    (\<forall>k<j. 0 < rcv k) \<and> (j < vlen \<longrightarrow> rcv j = 0)"
  then have "aeron_udp_channel_transport_recvmmsg p sys rcv transport msgvec vlen bytes clientd
             = recvmsg_loop transport clientd rcv 0 vlen msgvec bytes [] 0"
    by (simp add: aeron_udp_channel_transport_recvmmsg_def)
  with h recvmsg_loop_batch [of j vlen msgvec rcv transport clientd bytes]
  show "\<exists>r. aeron_udp_channel_transport_recvmmsg p sys rcv transport msgvec vlen bytes clientd
              = Some r \<and>
           io_ret r = int j \<and> length (io_calls r) = j \<and>
           (\<forall>k<j. rc_buffer (io_calls r ! k) = iov_base (msgvec ! k) \<and>
                   rc_length (io_calls r ! k) = unat (word_of_int (rcv k) :: 32 word) \<and>
                   rc_addr (io_calls r ! k) = msg_name (msgvec ! k)) \<and>
           io_bytes r =
             bytes + sum_list (map (\<lambda>k. ucast (word_of_int (rcv k) :: 32 word)) [0..<j])"
    by auto
qed

theorem recvmmsg_delivers_batch_witness:
  "(\<exists>r. aeron_udp_channel_transport_recvmmsg linux_build two_datagrams_one_timestamp (\<lambda>k. 0)
           (bound_handle 5 0) [empty_slot 0, empty_slot 1] 2 1000 (Ptr 9) = Some r \<and>
        io_ret r = 2 \<and> length (io_calls r) = 2 \<and>
        rc_buffer (io_calls r ! 1) = Ptr 101 \<and> rc_length (io_calls r ! 1) = 60 \<and>
        rc_addr (io_calls r ! 1) = Ptr 201 \<and> io_bytes r = 1160) \<and>
   (\<exists>r. aeron_udp_channel_transport_recvmmsg scalar_build no_datagram
           (\<lambda>k. if k < 2 then 100 else 0)
           (bound_handle 5 0) [empty_slot 0, empty_slot 1, empty_slot 2] 3 1000 (Ptr 9) = Some r \<and>
        io_ret r = 2 \<and> length (io_calls r) = 2 \<and>
        rc_buffer (io_calls r ! 1) = Ptr 101 \<and> rc_length (io_calls r ! 1) = 100 \<and>
        rc_addr (io_calls r ! 1) = Ptr 201 \<and> io_bytes r = 1200)"
proof -
  let ?mv = "[empty_slot 0, empty_slot 1]"
  let ?mv' = "[(empty_slot 0)\<lparr>msg_len := 100,
                 cmsg_firsthdr := Some \<lparr>cmsg_level = 1, cmsg_type = 35, cmsg_len = 32,
                                         cmsg_data = \<lparr>tv_sec = 1700000000, tv_nsec = 5\<rparr>\<rparr>\<rparr>,
               (empty_slot 1)\<lparr>msg_len := 60, cmsg_firsthdr := None\<rparr>]"
  have v: "defined_HAVE_RECVMMSG linux_build \<and>
           prepare_control linux_build (bound_handle 5 0) 2 ?mv = Some ?mv \<and>
           two_datagrams_one_timestamp (fd (bound_handle 5 0)) ?mv 2 = (2, Errno_other 0, ?mv') \<and>
           (0::int) < 2 \<and> nat 2 \<le> length ?mv'"
    by (simp add: linux_build_def prepare_control_def bound_handle_def
          two_datagrams_one_timestamp_def)
  have s: "\<not> defined_HAVE_RECVMMSG scalar_build \<and> (2::nat) \<le> 3 \<and>
           3 \<le> length [empty_slot 0, empty_slot 1, empty_slot 2] \<and>
           (\<forall>k<2. (0::int) < (if k < 2 then 100 else 0)) \<and>
           ((2::nat) < 3 \<longrightarrow> (if (2::nat) < 2 then 100 else 0) = (0::int))"
    by (simp add: scalar_build_def linux_build_def)
  have two: "[0..<2] = [0, Suc 0]" "[0..<nat 2] = [0, Suc 0]"
    by (simp_all add: upt_conv_Cons)
  from recvmmsg_delivers_batch
         [where p = linux_build and transport = "bound_handle 5 0" and vlen = 2 and msgvec = ?mv
            and mv = ?mv and sys = two_datagrams_one_timestamp and K = 2
            and err = "Errno_other 0" and mv' = ?mv' and rcv = "\<lambda>k. 0" and bytes = 1000
            and clientd = "Ptr 9", THEN conjunct1, rule_format, OF v]
  have 1: "\<exists>r. aeron_udp_channel_transport_recvmmsg linux_build two_datagrams_one_timestamp
                  (\<lambda>k. 0) (bound_handle 5 0) ?mv 2 1000 (Ptr 9) = Some r \<and>
        io_ret r = 2 \<and> length (io_calls r) = 2 \<and>
        rc_buffer (io_calls r ! 1) = Ptr 101 \<and> rc_length (io_calls r ! 1) = 60 \<and>
        rc_addr (io_calls r ! 1) = Ptr 201 \<and> io_bytes r = 1160"
    by (auto simp: two empty_slot_def)
  from recvmmsg_delivers_batch
         [where p = scalar_build and transport = "bound_handle 5 0" and vlen = 3
            and msgvec = "[empty_slot 0, empty_slot 1, empty_slot 2]"
            and sys = no_datagram and j = 2 and rcv = "\<lambda>k. if k < 2 then 100 else 0"
            and bytes = 1000 and clientd = "Ptr 9", THEN conjunct2, rule_format, OF s]
  have 2: "\<exists>r. aeron_udp_channel_transport_recvmmsg scalar_build no_datagram
           (\<lambda>k. if k < 2 then 100 else 0)
           (bound_handle 5 0) [empty_slot 0, empty_slot 1, empty_slot 2] 3 1000 (Ptr 9) = Some r \<and>
        io_ret r = 2 \<and> length (io_calls r) = 2 \<and>
        rc_buffer (io_calls r ! 1) = Ptr 101 \<and> rc_length (io_calls r ! 1) = 100 \<and>
        rc_addr (io_calls r ! 1) = Ptr 201 \<and> io_bytes r = 1200"
    by (auto simp: two empty_slot_def)
  from 1 2 show ?thesis by blast
qed

text \<open>
  Claim C7 (scalar send fallback). When the first \<open>j\<close> sends report a positive byte
  count and either \<open>j\<close> is the number of messages or send \<open>j\<close> reports zero bytes, the
  function returns \<open>j\<close>; in the second case it has issued \<open>j + 1\<close> sends and no more.
\<close>

theorem sendmmsg_scalar_fallback:
  assumes "\<not> defined_HAVE_SENDMMSG p" and "j \<le> vlen" and "vlen \<le> length msgvec"
    and "\<forall>k<j. 0 < sendmsg k" and "j < vlen \<longrightarrow> sendmsg j = 0"
  shows "\<exists>r. aeron_udp_channel_transport_sendmmsg p sys sendmsg transport msgvec vlen = Some r \<and>
              io_ret r = int j \<and>
              io_syscalls r = (if j < vlen then Suc j else j)"
proof -
  from assms(2-5)
  have "\<exists>mv. sendmsg_loop sendmsg 0 vlen msgvec 0 =
           Some \<lparr>io_ret = 0 + int (j - 0), io_bytes = 0, io_calls = [],
                 io_msgvec = mv, io_syscalls = (if j < vlen then Suc j else j)\<rparr>"
    by (intro sendmsg_loop_run [where n = j]) auto
  with assms(1) show ?thesis
    by (auto simp: aeron_udp_channel_transport_sendmmsg_def)
qed

theorem sendmmsg_scalar_fallback_witness:
  "(\<exists>r. aeron_udp_channel_transport_sendmmsg scalar_build no_send (\<lambda>k. 100)
           (bound_handle 5 0) [empty_slot 0, empty_slot 1, empty_slot 2] 3 = Some r \<and>
        io_ret r = 3 \<and> io_syscalls r = 3) \<and>
   (\<exists>r. aeron_udp_channel_transport_sendmmsg scalar_build no_send
           (\<lambda>k. if k = 2 then 0 else 100)
           (bound_handle 5 0) [empty_slot 0, empty_slot 1, empty_slot 2, empty_slot 3] 4 = Some r \<and>
        io_ret r = 2 \<and> io_syscalls r = 3)"
proof -
  have build: "\<not> defined_HAVE_SENDMMSG scalar_build"
    by (simp add: scalar_build_def linux_build_def)
  from sendmmsg_scalar_fallback
         [where p = scalar_build and j = 3 and vlen = 3
            and msgvec = "[empty_slot 0, empty_slot 1, empty_slot 2]"
            and sendmsg = "\<lambda>k. 100" and sys = no_send and transport = "bound_handle 5 0"]
  have 1: "\<exists>r. aeron_udp_channel_transport_sendmmsg scalar_build no_send (\<lambda>k. 100)
           (bound_handle 5 0) [empty_slot 0, empty_slot 1, empty_slot 2] 3 = Some r \<and>
        io_ret r = 3 \<and> io_syscalls r = 3"
    by (simp add: build)
  from sendmmsg_scalar_fallback
         [where p = scalar_build and j = 2 and vlen = 4
            and msgvec = "[empty_slot 0, empty_slot 1, empty_slot 2, empty_slot 3]"
            and sendmsg = "\<lambda>k. if k = 2 then 0 else 100" and sys = no_send
            and transport = "bound_handle 5 0"]
  have 2: "\<exists>r. aeron_udp_channel_transport_sendmmsg scalar_build no_send
           (\<lambda>k. if k = 2 then 0 else 100)
           (bound_handle 5 0) [empty_slot 0, empty_slot 1, empty_slot 2, empty_slot 3] 4 = Some r \<and>
        io_ret r = 2 \<and> io_syscalls r = 3"
    by (simp add: build)
  from 1 2 show ?thesis by blast
qed

text \<open>
  Claim C8 (scalar receive fallback). One receive call is issued per slot, in order; the
  first call that returns zero ends the batch, and the function returns the number of
  datagrams dispatched before it. Every invocation of the callback, in every run of the
  scalar path and whatever the timestamp flag of the handle, has a null timestamp.
\<close>

theorem recvmmsg_scalar_fallback:
  assumes "\<not> defined_HAVE_RECVMMSG p"
  shows "(j \<le> vlen \<and> vlen \<le> length msgvec \<and> (\<forall>k<j. 0 < rcv k) \<and> (j < vlen \<longrightarrow> rcv j = 0) \<longrightarrow>
            (\<exists>r. aeron_udp_channel_transport_recvmmsg p sys rcv transport msgvec vlen bytes clientd
                    = Some r \<and>
                 io_ret r = int j \<and>
                 io_syscalls r = (if j < vlen then Suc j else j) \<and>
                 length (io_calls r) = j \<and>
                 (\<forall>k<j. rc_buffer (io_calls r ! k) = iov_base (msgvec ! k)))) \<and>
         (\<forall>r. aeron_udp_channel_transport_recvmmsg p sys rcv transport msgvec vlen bytes clientd
                 = Some r \<longrightarrow>
              (\<forall>c \<in> set (io_calls r). rc_media_rcv_timestamp c = Timestamp_null))"
proof -
  have path: "aeron_udp_channel_transport_recvmmsg p sys rcv transport msgvec vlen bytes clientd
              = recvmsg_loop transport clientd rcv 0 vlen msgvec bytes [] 0"
    using assms by (simp add: aeron_udp_channel_transport_recvmmsg_def)
  have "\<exists>r. recvmsg_loop transport clientd rcv 0 vlen msgvec bytes [] 0 = Some r \<and>
             io_ret r = int j \<and>
             io_syscalls r = (if j < vlen then Suc j else j) \<and>
             length (io_calls r) = j \<and>
             (\<forall>k<j. rc_buffer (io_calls r ! k) = iov_base (msgvec ! k))"
    if "j \<le> vlen \<and> vlen \<le> length msgvec \<and> (\<forall>k<j. 0 < rcv k) \<and> (j < vlen \<longrightarrow> rcv j = 0)"
    using that recvmsg_loop_batch [of j vlen msgvec rcv transport clientd bytes] by auto
  moreover have "\<forall>c \<in> set (io_calls r). rc_media_rcv_timestamp c = Timestamp_null"
    if "recvmsg_loop transport clientd rcv 0 vlen msgvec bytes [] 0 = Some r" for r
    using that by (rule recvmsg_loop_timestamps) simp
  ultimately show ?thesis
    unfolding path by blast
qed

theorem recvmmsg_scalar_fallback_witness:
  "\<exists>r. aeron_udp_channel_transport_recvmmsg scalar_build no_datagram
          (\<lambda>k. if k < 2 then 100 else 0)
          (bound_handle 5 AERON_UDP_CHANNEL_TRANSPORT_MEDIA_RCV_TIMESTAMP)
          [empty_slot 0, empty_slot 1, empty_slot 2] 3 0 (Ptr 9) = Some r \<and>
       io_ret r = 2 \<and> io_syscalls r = 3 \<and> length (io_calls r) = 2 \<and>
       rc_buffer (io_calls r ! 0) = Ptr 100 \<and> rc_buffer (io_calls r ! 1) = Ptr 101 \<and>
       rc_media_rcv_timestamp (io_calls r ! 0) = Timestamp_null \<and>
       rc_media_rcv_timestamp (io_calls r ! 1) = Timestamp_null"
proof -
  have build: "\<not> defined_HAVE_RECVMMSG scalar_build"
    by (simp add: scalar_build_def linux_build_def)
  have run: "(2::nat) \<le> 3 \<and> 3 \<le> length [empty_slot 0, empty_slot 1, empty_slot 2] \<and>
             (\<forall>k<2. (0::int) < (if k < 2 then 100 else 0)) \<and>
             ((2::nat) < 3 \<longrightarrow> (if (2::nat) < 2 then 100 else 0) = (0::int))"
    by simp
  note inst = recvmmsg_scalar_fallback
         [OF build, where j = 2 and vlen = 3
            and msgvec = "[empty_slot 0, empty_slot 1, empty_slot 2]"
            and rcv = "\<lambda>k. if k < 2 then 100 else 0" and sys = no_datagram
            and transport = "bound_handle 5 AERON_UDP_CHANNEL_TRANSPORT_MEDIA_RCV_TIMESTAMP"
            and bytes = 0 and clientd = "Ptr 9"]
  from inst [THEN conjunct1, rule_format, OF run] obtain r where
    r: "aeron_udp_channel_transport_recvmmsg scalar_build no_datagram
          (\<lambda>k. if k < 2 then 100 else 0)
          (bound_handle 5 AERON_UDP_CHANNEL_TRANSPORT_MEDIA_RCV_TIMESTAMP)
          [empty_slot 0, empty_slot 1, empty_slot 2] 3 0 (Ptr 9) = Some r"
    and facts: "io_ret r = 2" "io_syscalls r = 3" "length (io_calls r) = 2"
    and bufs: "\<forall>k<2. rc_buffer (io_calls r ! k) = iov_base ([empty_slot 0, empty_slot 1, empty_slot 2] ! k)"
    by auto
  from inst [THEN conjunct2, rule_format, OF r]
  have null: "rc_media_rcv_timestamp c = Timestamp_null" if "c \<in> set (io_calls r)" for c
    using that by blast
  have "io_calls r ! 0 \<in> set (io_calls r)" "io_calls r ! 1 \<in> set (io_calls r)"
    using facts(3) by simp_all
  then have "rc_media_rcv_timestamp (io_calls r ! 0) = Timestamp_null"
    "rc_media_rcv_timestamp (io_calls r ! 1) = Timestamp_null"
    by (simp_all add: null)
  moreover from bufs have "rc_buffer (io_calls r ! 0) = Ptr 100" "rc_buffer (io_calls r ! 1) = Ptr 101"
    by (simp_all add: empty_slot_def)
  ultimately show ?thesis using r facts by blast
qed

text \<open>
  Claim C9 (interceptor slots). For an index within the table, setting the slot and
  reading it back gives the stored reference, every other index reads as before, and
  after init (whatever its outcome) the slot reads as \<open>NULL\<close>.
\<close>

theorem interceptor_slot_set_get:
  assumes "0 \<le> i" and "nat i < AERON_UDP_CHANNEL_TRANSPORT_MAX_INTERCEPTORS p"
  shows "(\<exists>t'. aeron_udp_channel_transport_set_interceptor_clientd p transport i clientd = Some t' \<and>
            aeron_udp_channel_transport_get_interceptor_clientd p t' i = Some clientd \<and>
            (\<forall>j. j \<noteq> i \<longrightarrow>
               aeron_udp_channel_transport_get_interceptor_clientd p t' j =
               aeron_udp_channel_transport_get_interceptor_clientd p transport j)) \<and>
         aeron_udp_channel_transport_get_interceptor_clientd p
           (ir_transport (aeron_udp_channel_transport_init p e a handle os)) i = Some NULL"
proof -
  have "aeron_udp_channel_transport_get_interceptor_clientd p
           (ir_transport (aeron_udp_channel_transport_init p e a handle os)) i = Some NULL"
    using assms
    by (simp add: aeron_udp_channel_transport_get_interceptor_clientd_def init_slots_reset
          clear_interceptor_clientds_apply)
  moreover have "\<exists>t'. aeron_udp_channel_transport_set_interceptor_clientd p transport i clientd = Some t' \<and>
            aeron_udp_channel_transport_get_interceptor_clientd p t' i = Some clientd \<and>
            (\<forall>j. j \<noteq> i \<longrightarrow>
               aeron_udp_channel_transport_get_interceptor_clientd p t' j =
               aeron_udp_channel_transport_get_interceptor_clientd p transport j)"
    using assms
    by (auto simp: aeron_udp_channel_transport_set_interceptor_clientd_def
          aeron_udp_channel_transport_get_interceptor_clientd_def)
  ultimately show ?thesis by blast
qed

theorem interceptor_slot_set_get_witness:
  "(\<exists>t'. aeron_udp_channel_transport_set_interceptor_clientd linux_build
            (ir_transport (aeron_udp_channel_transport_init linux_build (all_succeed 7)
                             unicast_args stale_handle (os_with {}))) 1 (Ptr 42) = Some t' \<and>
         aeron_udp_channel_transport_get_interceptor_clientd linux_build t' 1 = Some (Ptr 42) \<and>
         aeron_udp_channel_transport_get_interceptor_clientd linux_build t' 0 = Some NULL) \<and>
   aeron_udp_channel_transport_get_interceptor_clientd linux_build
     (ir_transport (aeron_udp_channel_transport_init linux_build (all_succeed 7)
                      unicast_args stale_handle (os_with {}))) 1 = Some NULL"
proof -
  let ?h = "ir_transport (aeron_udp_channel_transport_init linux_build (all_succeed 7)
                            unicast_args stale_handle (os_with {}))"
  have r: "(0::int) \<le> 1" "nat 1 < AERON_UDP_CHANNEL_TRANSPORT_MAX_INTERCEPTORS linux_build"
          "(0::int) \<le> 0" "nat 0 < AERON_UDP_CHANNEL_TRANSPORT_MAX_INTERCEPTORS linux_build"
    by (simp_all add: linux_build_def)
  from interceptor_slot_set_get [OF r(1,2), where transport = ?h and clientd = "Ptr 42"
         and e = "all_succeed 7" and a = unicast_args and handle = stale_handle
         and os = "os_with {}"]
  obtain t' where t':
    "aeron_udp_channel_transport_set_interceptor_clientd linux_build ?h 1 (Ptr 42) = Some t'"
    "aeron_udp_channel_transport_get_interceptor_clientd linux_build t' 1 = Some (Ptr 42)"
    "aeron_udp_channel_transport_get_interceptor_clientd linux_build t' 0 =
     aeron_udp_channel_transport_get_interceptor_clientd linux_build ?h 0"
    and unset1: "aeron_udp_channel_transport_get_interceptor_clientd linux_build ?h 1 = Some NULL"
    by auto
  from interceptor_slot_set_get [OF r(3,4), where transport = stale_handle and clientd = NULL
         and e = "all_succeed 7" and a = unicast_args and handle = stale_handle
         and os = "os_with {}"]
  have unset0: "aeron_udp_channel_transport_get_interceptor_clientd linux_build ?h 0 = Some NULL"
    by simp
  from t' unset0 unset1 show ?thesis by simp
qed

text \<open>
  Claim C10 (close changes no field of the handle). The handle after close is the handle
  before; when it was bound, its descriptor is still the old value, not \<open>- 1\<close>, although
  that descriptor no longer names an open socket.
\<close>

theorem close_leaves_handle_unchanged:
  "fst (snd (aeron_udp_channel_transport_close transport os)) = transport \<and>
   (fd transport \<noteq> - 1 \<longrightarrow>
      fd (fst (snd (aeron_udp_channel_transport_close transport os))) \<noteq> - 1 \<and>
      fd transport \<notin> open_fds (snd (snd (aeron_udp_channel_transport_close transport os))))"
  by (simp add: close_result aeron_close_socket_def os_log_def)

theorem close_leaves_handle_unchanged_witness:
  "fst (snd (aeron_udp_channel_transport_close (bound_handle 5 0) (os_with {5})))
     = bound_handle 5 0 \<and>
   fd (fst (snd (aeron_udp_channel_transport_close (bound_handle 5 0) (os_with {5})))) = 5 \<and>
   5 \<notin> open_fds (snd (snd (aeron_udp_channel_transport_close (bound_handle 5 0) (os_with {5}))))"
  using close_leaves_handle_unchanged [of "bound_handle 5 0" "os_with {5}"]
  by (simp add: bound_handle_def)

end
